theory Spec2Isabelle
  imports Complex_Main "HOL-Library.Word" "HOL-Library.Multiset"
begin

section \<open>Token codec: \<open>verifyQrToken\<close> (utils/qr.js)\<close>

text \<open>
  The credential is \<open>base64(payload).hex(signature)\<close>. Strings are modelled as byte
  strings (\<open>string\<close>), buffers as lists of bytes. The two library functions the
  codec calls are parameters of the model, each with the exception it may throw as a value:
  \<^item> \<open>hmac secret p\<close> is \<open>crypto.createHmac('sha256', secret).update(p).digest()\<close>,
  \<^item> \<open>parse p\<close> is \<open>JSON.parse(Buffer.from(p, 'base64').toString('utf8'))\<close>.
  Everything else (\<open>split\<close>, hexadecimal buffers, \<open>timingSafeEqual\<close>, the
  \<open>try/catch\<close>) is written out.
\<close>

type_synonym byte = "8 word"

datatype js_error = JSError (message: string)

datatype js_value = JSString string | JSOther

datatype 'p verify_result = Valid 'p | Invalid string

text \<open>\<open>String.prototype.split\<close> with a one-character separator.\<close>

fun split_on :: "char \<Rightarrow> string \<Rightarrow> string list" where
  "split_on d [] = [] # []"
| "split_on d (c # cs) =
     (if c = d then [] # split_on d cs
      else (case split_on d cs of
              w # ws \<Rightarrow> (c # w) # ws
            | [] \<Rightarrow> [c] # []))"

text \<open>Array destructuring \<open>const [a, b] = xs\<close>: a missing element is \<open>undefined\<close>.\<close>

definition element :: "'a list \<Rightarrow> nat \<Rightarrow> 'a option" where
  "element xs i = (if i < length xs then Some (xs ! i) else None)"

text \<open>\<open>!s\<close> for a value that is a string or \<open>undefined\<close>.\<close>

definition falsy :: "string option \<Rightarrow> bool" where
  "falsy s = (case s of None \<Rightarrow> True | Some t \<Rightarrow> t = [])"

text \<open>
  \<open>digest('hex')\<close> and \<open>Buffer.from(s, 'hex')\<close>. Decoding reads two characters per
  byte and stops at the first pair that is not hexadecimal (a trailing single character is
  dropped).
\<close>

definition hex_digit :: "nat \<Rightarrow> char" where
  "hex_digit n = (''0123456789abcdef'') ! (n mod 16)"

definition to_hex :: "byte list \<Rightarrow> string" where
  "to_hex bs = concat (map (\<lambda>b. [hex_digit (unat b div 16), hex_digit (unat b mod 16)]) bs)"

definition hex_val :: "char \<Rightarrow> nat option" where
  "hex_val c =
     (let n = (of_char c :: nat) in
      if 48 \<le> n \<and> n \<le> 57 then Some (n - 48)
      else if 97 \<le> n \<and> n \<le> 102 then Some (n - 87)
      else if 65 \<le> n \<and> n \<le> 70 then Some (n - 55)
      else None)"

fun from_hex :: "string \<Rightarrow> byte list" where
  "from_hex (a # b # rest) =
     (case (hex_val a, hex_val b) of
        (Some x, Some y) \<Rightarrow> of_nat (16 * x + y) # from_hex rest
      | _ \<Rightarrow> [])"
| "from_hex _ = []"

text \<open>\<open>crypto.timingSafeEqual\<close> throws when the buffers differ in length.\<close>

definition length_message :: string where
  "length_message = ''Input buffers must have the same byte length''"

definition timingSafeEqual :: "byte list \<Rightarrow> byte list \<Rightarrow> js_error + bool" where
  "timingSafeEqual a b =
     (if length a \<noteq> length b then Inl (JSError length_message) else Inr (a = b))"

text \<open>The body of the \<open>try\<close> block: \<open>Inl\<close> is an exception leaving the block.\<close>

definition verifyQrToken_try ::
  "('k \<Rightarrow> string \<Rightarrow> js_error + byte list) \<Rightarrow> (string \<Rightarrow> js_error + 'p) \<Rightarrow>
   js_value \<Rightarrow> 'k \<Rightarrow> js_error + 'p verify_result" where
  "verifyQrToken_try hmac parse token secret =
     (case token of
        JSOther \<Rightarrow> Inr (Invalid ''Invalid token type'')
      | JSString t \<Rightarrow>
          if t = [] then Inr (Invalid ''Invalid token type'')
          else
            let parts = split_on CHR ''.'' t;
                payloadB64 = element parts 0;
                signature = element parts 1
            in if falsy payloadB64 \<or> falsy signature
               then Inr (Invalid ''Missing payload or signature'')
               else
                 (case hmac secret (the payloadB64) of
                    Inl err \<Rightarrow> Inl err
                  | Inr digest \<Rightarrow>
                      (case timingSafeEqual (from_hex (to_hex digest)) (from_hex (the signature)) of
                         Inl err \<Rightarrow> Inl err
                       | Inr same \<Rightarrow>
                           if \<not> same then Inr (Invalid ''Signature mismatch'')
                           else (case parse (the payloadB64) of
                                   Inl err \<Rightarrow> Inl err
                                 | Inr payload \<Rightarrow> Inr (Valid payload)))))"

text \<open>The whole function: the \<open>catch\<close> turns every exception into a tagged result.\<close>

definition verifyQrToken ::
  "('k \<Rightarrow> string \<Rightarrow> js_error + byte list) \<Rightarrow> (string \<Rightarrow> js_error + 'p) \<Rightarrow>
   js_value \<Rightarrow> 'k \<Rightarrow> js_error + 'p verify_result" where
  "verifyQrToken hmac parse token secret =
     (case verifyQrToken_try hmac parse token secret of
        Inl err \<Rightarrow> Inr (Invalid (message err))
      | Inr r \<Rightarrow> Inr r)"

text \<open>Flipping bit \<open>i\<close> of the character at position \<open>j\<close>.\<close>

definition flip_char :: "nat \<Rightarrow> char \<Rightarrow> char" where
  "flip_char i c = char_of (flip_bit i (of_char c :: nat))"

definition flip_at :: "nat \<Rightarrow> nat \<Rightarrow> string \<Rightarrow> string" where
  "flip_at j i s = s[j := flip_char i (s ! j)]"

text \<open>
  The MAC check of a credential string on its own: the string has a payload and a signature
  segment, and the bytes of the signature segment are the MAC of the payload segment.
\<close>

definition mac_verified :: "('k \<Rightarrow> string \<Rightarrow> js_error + byte list) \<Rightarrow> 'k \<Rightarrow> string \<Rightarrow> bool" where
  "mac_verified hmac secret t =
     (case split_on CHR ''.'' t of
        p # s # _ \<Rightarrow> (case hmac secret p of Inr d \<Rightarrow> from_hex s = d | Inl _ \<Rightarrow> False)
      | _ \<Rightarrow> False)"

text \<open>
  A small keyed checksum with a 32-byte digest and a one-entry parser, used to run the codec
  on concrete credentials.
\<close>

definition example_mac :: "string \<Rightarrow> string \<Rightarrow> js_error + byte list" where
  "example_mac k p = Inr (replicate 31 0 @ [of_nat (sum_list (map of_char (k @ p)))])"

definition example_parse :: "string \<Rightarrow> js_error + string" where
  "example_parse p =
     (if p = ''bnVsbA=='' then Inr ''null'' else Inl (JSError ''Unexpected end of JSON input''))"

definition example_signature :: string where
  "example_signature = ''0000000000000000000000000000000000000000000000000000000000000021''"

section \<open>Meal window resolver: \<open>determineMealType\<close>\<close>

datatype meal_type = Breakfast | Lunch | Dinner | Snack

text \<open>
  A configured window is an object with optional boundary strings \<open>start\<close>/\<open>end\<close>
  (or \<open>from\<close>/\<open>to\<close>); the settings object carries the windows of the three meal
  types and the other settings the redemption code reads. A field the code reads with
  \<open>?.\<close> or \<open>||\<close> is optional.
\<close>

record meal_window =
  w_start :: "string option"
  w_from :: "string option"
  w_end :: "string option"
  w_to :: "string option"

record meal_windows =
  breakfast :: "meal_window option"
  lunch :: "meal_window option"
  dinner :: "meal_window option"

record settings =
  mealWindows :: "meal_windows option"
  doubleScanWindowSeconds :: "int option"
  alertThresholdMealsRemaining :: "int option"
  timezone :: "string option"

text \<open>\<open>a || b\<close> and \<open>!a\<close> on values that are a string or \<open>undefined\<close>.\<close>

definition js_or :: "string option \<Rightarrow> string option \<Rightarrow> string option" where
  "js_or a b = (if falsy a then b else a)"

text \<open>\<open>w?.f\<close> on an optional window.\<close>

definition opt_field :: "meal_window option \<Rightarrow> (meal_window \<Rightarrow> string option) \<Rightarrow> string option" where
  "opt_field w f = (case w of None \<Rightarrow> None | Some x \<Rightarrow> f x)"

text \<open>The comparison \<open>a <= b\<close> of two JavaScript strings: lexicographic on the code units.\<close>

fun str_le :: "string \<Rightarrow> string \<Rightarrow> bool" where
  "str_le [] ys = True"
| "str_le (x # xs) [] = False"
| "str_le (x # xs) (y # ys) =
     (if (of_char x :: nat) < of_char y then True
      else if (of_char y :: nat) < of_char x then False
      else str_le xs ys)"

text \<open>\<open>String(n)\<close> for a natural number and \<open>padStart(2, "0")\<close>.\<close>

definition digit_char :: "nat \<Rightarrow> char" where
  "digit_char n = char_of (48 + n)"

fun string_of_nat :: "nat \<Rightarrow> string" where
  "string_of_nat n =
     (if n < 10 then [digit_char n] else string_of_nat (n div 10) @ [digit_char (n mod 10)])"

declare string_of_nat.simps [simp del]

definition padStart2 :: "string \<Rightarrow> string" where
  "padStart2 s = replicate (2 - length s) CHR ''0'' @ s"

definition currentTime :: "nat \<Rightarrow> nat \<Rightarrow> string" where
  "currentTime hours minutes =
     padStart2 (string_of_nat hours) @ '':'' @ padStart2 (string_of_nat minutes)"

definition isTimeInWindow :: "string \<Rightarrow> string option \<Rightarrow> string option \<Rightarrow> bool" where
  "isTimeInWindow t windowStart windowEnd =
     (if falsy windowStart \<or> falsy windowEnd then False
      else str_le (the windowStart) t \<and> str_le t (the windowEnd))"

text \<open>
  \<open>determineMealType(config)\<close> of utils/mealTypeHelper.js; \<open>hours\<close> and
  \<open>minutes\<close> are what \<open>new Date()\<close> gives (\<open>getHours()\<close>, \<open>getMinutes()\<close>).
\<close>

definition window_of :: "meal_windows option \<Rightarrow> (meal_windows \<Rightarrow> meal_window option) \<Rightarrow> meal_window option" where
  "window_of ws f = (case ws of None \<Rightarrow> None | Some x \<Rightarrow> f x)"

definition in_configured :: "string \<Rightarrow> meal_window option \<Rightarrow> bool" where
  "in_configured t w =
     isTimeInWindow t (js_or (opt_field w w_start) (opt_field w w_from))
                      (js_or (opt_field w w_end) (opt_field w w_to))"

definition determineMealType :: "settings \<Rightarrow> nat \<Rightarrow> nat \<Rightarrow> meal_type option" where
  "determineMealType config hours minutes =
     (let t = currentTime hours minutes;
          windows = mealWindows config
      in if in_configured t (window_of windows breakfast) then Some Breakfast
         else if in_configured t (window_of windows lunch) then Some Lunch
         else if in_configured t (window_of windows dinner) then Some Dinner
         else None)"

text \<open>\<open>determineMealType()\<close> of utils/determineMealType.js: fixed hours, no configuration.\<close>

definition determineMealType_hour :: "nat \<Rightarrow> meal_type option" where
  "determineMealType_hour hour =
     (if hour \<ge> 6 \<and> hour < 11 then Some Breakfast
      else if hour \<ge> 11 \<and> hour < 16 then Some Lunch
      else if hour \<ge> 16 \<and> hour < 22 then Some Dinner
      else None)"

text \<open>
  The specification's resolver, on times of day as minutes since midnight: the first meal
  type in the order breakfast, lunch, dinner whose window contains the time, both ends
  included.
\<close>

type_synonym clock = "nat \<times> nat"

definition minute_of_day :: "clock \<Rightarrow> nat" where
  "minute_of_day c = 60 * fst c + snd c"

definition hhmm :: "clock \<Rightarrow> string" where
  "hhmm c = currentTime (fst c) (snd c)"

definition valid_clock :: "clock \<Rightarrow> bool" where
  "valid_clock c = (fst c < 24 \<and> snd c < 60)"

definition contains :: "clock \<times> clock \<Rightarrow> clock \<Rightarrow> bool" where
  "contains w c =
     (minute_of_day (fst w) \<le> minute_of_day c \<and> minute_of_day c \<le> minute_of_day (snd w))"

definition resolve_spec :: "(clock \<times> clock) \<Rightarrow> (clock \<times> clock) \<Rightarrow> (clock \<times> clock) \<Rightarrow> clock \<Rightarrow> meal_type option" where
  "resolve_spec b l d c =
     (if contains b c then Some Breakfast
      else if contains l c then Some Lunch
      else if contains d c then Some Dinner
      else None)"

definition window :: "clock \<times> clock \<Rightarrow> meal_window" where
  "window w = \<lparr>w_start = Some (hhmm (fst w)), w_from = None, w_end = Some (hhmm (snd w)), w_to = None\<rparr>"

definition configured :: "(clock \<times> clock) \<Rightarrow> (clock \<times> clock) \<Rightarrow> (clock \<times> clock) \<Rightarrow> settings" where
  "configured b l d =
     \<lparr>mealWindows = Some \<lparr>breakfast = Some (window b), lunch = Some (window l), dinner = Some (window d)\<rparr>,
      doubleScanWindowSeconds = None, alertThresholdMealsRemaining = None, timezone = None\<rparr>"

definition lunch_only :: settings where
  "lunch_only =
     \<lparr>mealWindows = Some \<lparr>breakfast = None,
         lunch = Some \<lparr>w_start = Some ''12:00'', w_from = None, w_end = Some ''15:00'', w_to = None\<rparr>,
         dinner = None\<rparr>,
      doubleScanWindowSeconds = None, alertThresholdMealsRemaining = None, timezone = None\<rparr>"

section \<open>Settings cache: \<open>getSettings\<close> (utils/settingsCache.js)\<close>

text \<open>
  The module state is the cached settings object and the time it was loaded. The lookup
  \<open>Settings.findOne({}).lean()\<close> is an argument: it throws (\<open>Inl\<close>), finds no document
  (\<open>Inr None\<close>) or returns one. \<open>now\<close> is \<open>Date.now()\<close> at the freshness test and
  \<open>now'\<close> the one after the lookup has returned. Times are milliseconds.
\<close>

record cache_state =
  cache :: "settings option"
  loadedAt :: int

definition TTL :: int where
  "TTL = 60000"

definition getDefaultSettings :: settings where
  "getDefaultSettings =
     \<lparr>mealWindows = Some
        \<lparr>breakfast = Some \<lparr>w_start = Some ''06:30'', w_from = None, w_end = Some ''10:00'', w_to = None\<rparr>,
         lunch = Some \<lparr>w_start = Some ''12:00'', w_from = None, w_end = Some ''15:00'', w_to = None\<rparr>,
         dinner = Some \<lparr>w_start = Some ''19:00'', w_from = None, w_end = Some ''22:00'', w_to = None\<rparr>\<rparr>,
      doubleScanWindowSeconds = Some 30,
      alertThresholdMealsRemaining = Some 5,
      timezone = Some ''UTC''\<rparr>"

definition getSettings ::
  "cache_state \<Rightarrow> int \<Rightarrow> int \<Rightarrow> (js_error + settings option) \<Rightarrow> settings \<times> cache_state" where
  "getSettings st now now' lookup =
     (if cache st \<noteq> None \<and> now - loadedAt st < TTL then (the (cache st), st)
      else (case lookup of
              Inr s \<Rightarrow>
                (let c = (case s of Some found \<Rightarrow> found | None \<Rightarrow> getDefaultSettings)
                 in (c, \<lparr>cache = Some c, loadedAt = now'\<rparr>))
            | Inl err \<Rightarrow>
                ((case cache st of Some c \<Rightarrow> c | None \<Rightarrow> getDefaultSettings), st)))"

definition clearSettingsCache :: cache_state where
  "clearSettingsCache = \<lparr>cache = None, loadedAt = 0\<rparr>"

section \<open>The stored documents\<close>

text \<open>
  The collections are lists of documents in their natural order. Object identifiers are
  numbers, times are milliseconds since the epoch, a count of meals is a rational number
  (the schema type \<open>Number\<close>), local time is taken to be UTC, and one call of a handler
  sees one instant \<open>now\<close>. \<open>findOne\<close> returns the first document that matches,
  \<open>findOneAndUpdate\<close> tests its filter and applies its update to the first matching
  document in one atomic step, and \<open>save()\<close> of a stored document sets the assigned
  fields. Creating a meal transaction, an audit entry or a notification runs the
  validators of its schema: a document that fails them is not stored and the call is
  rejected with a \<open>ValidationError\<close>. The indexes declared on the collections are not
  part of the model.
\<close>

type_synonym oid = nat
type_synonym time = int

datatype tx_status = Success | Blocked | Failed | Duplicate

datatype failure_reason =
    InvalidQr | CustomerNotFound | InvalidMealWindow | DuplicateScan | AlreadyScannedToday
  | NoSubscription | SubscriptionPaused | NoMealsRemaining | MealTypeNotAllowed

datatype payment_method = CASH | UPI | CARD | WALLET | NONE

record customer =
  c_id :: oid
  c_messId :: oid
  c_active :: bool
  c_qrCodeId :: string
  c_autoRenew :: bool
  c_preferredPaymentMethod :: payment_method
  c_upiId :: "string option"
  c_billingAmount :: rat
  c_billingCycleMeals :: rat
  c_ledger :: "(rat \<times> payment_method) list"
  c_lastPaymentAt :: "time option"

record meal_balances =
  b_breakfast :: rat
  b_lunch :: rat
  b_dinner :: rat
  b_snack :: rat

record subscription =
  s_id :: oid
  s_customerId :: oid
  s_planMealTypes :: "meal_type list option"
  s_mealsTotal :: rat
  s_mealsRemaining :: rat
  s_mealBalances :: "meal_balances option"
  s_startDate :: time
  s_endDate :: time
  s_active :: bool
  s_needsRenewal :: bool
  s_pausedAt :: "time option"
  s_createdAt :: time
  s_updatedAt :: time

record meal_transaction =
  t_id :: oid
  t_customerId :: oid
  t_subscriptionId :: "oid option"
  t_mealType :: "meal_type option"
  t_status :: tx_status
  t_timestamp :: time
  t_mealsRemainingBefore :: "rat option"
  t_mealsRemainingAfter :: "rat option"
  t_failureReason :: "failure_reason option"
  t_duplicateOfTransaction :: "oid option"
  t_clientTimestamp :: "time option"
  t_clientId :: "string option"
  t_syncedAt :: "time option"

record database =
  customers :: "customer list"
  subscriptions :: "subscription list"
  transactions :: "meal_transaction list"
  notifications :: "(string \<times> oid) list"
  auditLog :: "string list"

text \<open>Time of day and start of day of an instant.\<close>

definition getHours :: "time \<Rightarrow> nat" where
  "getHours t = nat ((t div 3600000) mod 24)"

definition getMinutes :: "time \<Rightarrow> nat" where
  "getMinutes t = nat ((t div 60000) mod 60)"

definition startOfDay :: "time \<Rightarrow> time" where
  "startOfDay t = t - t mod 86400000"

text \<open>\<open>findOne(filter).sort({key: -1})\<close>: the matching document with the greatest key.\<close>

fun find_latest :: "('a \<Rightarrow> time) \<Rightarrow> ('a \<Rightarrow> bool) \<Rightarrow> 'a list \<Rightarrow> 'a option" where
  "find_latest key P [] = None"
| "find_latest key P (x # xs) =
     (if P x then
        (case find_latest key P xs of
           None \<Rightarrow> Some x
         | Some y \<Rightarrow> if key x < key y then Some y else Some x)
      else find_latest key P xs)"

text \<open>The atomic conditional update: the first document that passes the filter is updated.\<close>

fun update_first :: "('a \<Rightarrow> bool) \<Rightarrow> ('a \<Rightarrow> 'a) \<Rightarrow> 'a list \<Rightarrow> 'a option \<times> 'a list" where
  "update_first P f [] = (None, [])"
| "update_first P f (x # xs) =
     (if P x then (Some (f x), f x # xs)
      else (case update_first P f xs of (r, ys) \<Rightarrow> (r, x # ys)))"

text \<open>\<open>doc.save()\<close> after an assignment to a field: the field is set on the stored document.\<close>

definition save_subscription :: "oid \<Rightarrow> (subscription \<Rightarrow> subscription) \<Rightarrow> database \<Rightarrow> database" where
  "save_subscription i f db = db\<lparr>subscriptions := snd (update_first (\<lambda>s. s_id s = i) f (subscriptions db))\<rparr>"

text \<open>The insertion of a document: it gets the next identifier.\<close>

definition create_transaction :: "meal_transaction \<Rightarrow> database \<Rightarrow> meal_transaction \<times> database" where
  "create_transaction t db =
     (let t' = t\<lparr>t_id := length (transactions db)\<rparr>
      in (t', db\<lparr>transactions := transactions db @ [t']\<rparr>))"

definition blank_transaction :: meal_transaction where
  "blank_transaction =
     \<lparr>t_id = 0, t_customerId = 0, t_subscriptionId = None, t_mealType = None, t_status = Failed,
      t_timestamp = 0, t_mealsRemainingBefore = None, t_mealsRemainingAfter = None,
      t_failureReason = None, t_duplicateOfTransaction = None, t_clientTimestamp = None,
      t_clientId = None, t_syncedAt = None\<rparr>"

section \<open>The validators of the schemas (models/MealTransaction.js, AuditLog.js, Notification.js)\<close>

datatype rejection = ValidationError

text \<open>
  The schema of a meal transaction requires \<open>messId\<close>, \<open>customerId\<close>,
  \<open>subscriptionId\<close>, \<open>scannedByUserId\<close>, \<open>staffId\<close>, \<open>mealType\<close>, \<open>status\<close>,
  \<open>qrCodeId\<close>, \<open>mealsRemainingBefore\<close> and \<open>mealsRemainingAfter\<close>; \<open>timestamp\<close>
  has a default. \<open>mealType\<close> is one of breakfast, lunch and dinner, and \<open>failureReason\<close>,
  when given, one of no_subscription, subscription_expired, no_meals_remaining,
  duplicate_scan, invalid_meal_window, invalid_qr, customer_inactive and
  subscription_paused. The four identifiers that no handler reads back are given beside
  the record; a meal type \<open>None\<close> is a string that names no meal, such as \<open>unknown\<close>.
\<close>

record transaction_ids =
  ti_messId :: "oid option"
  ti_scannedByUserId :: "oid option"
  ti_staffId :: "oid option"
  ti_qrCodeId :: "string option"

definition reason_in_schema :: "failure_reason \<Rightarrow> bool" where
  "reason_in_schema r =
     (r \<in> set [NoSubscription, NoMealsRemaining, DuplicateScan, InvalidMealWindow, InvalidQr,
                SubscriptionPaused])"

definition valid_transaction :: "transaction_ids \<Rightarrow> meal_transaction \<Rightarrow> bool" where
  "valid_transaction ids t =
     (ti_messId ids \<noteq> None \<and> t_subscriptionId t \<noteq> None \<and> ti_scannedByUserId ids \<noteq> None
      \<and> ti_staffId ids \<noteq> None
      \<and> t_mealType t \<in> set [Some Breakfast, Some Lunch, Some Dinner]
      \<and> \<not> falsy (ti_qrCodeId ids)
      \<and> t_mealsRemainingBefore t \<noteq> None \<and> t_mealsRemainingAfter t \<noteq> None
      \<and> (case t_failureReason t of None \<Rightarrow> True | Some r \<Rightarrow> reason_in_schema r))"

text \<open>\<open>MealTransaction.create(doc)\<close> and \<open>new MealTransaction(doc).save()\<close>.\<close>

definition create_meal_transaction ::
  "transaction_ids \<Rightarrow> meal_transaction \<Rightarrow> database \<Rightarrow> rejection + meal_transaction \<times> database" where
  "create_meal_transaction ids t db =
     (if valid_transaction ids t then Inr (create_transaction t db) else Inl ValidationError)"

text \<open>\<open>AuditLog.create\<close>: the schema requires \<open>messId\<close> and \<open>action\<close>.\<close>

definition create_audit :: "oid option \<Rightarrow> string \<Rightarrow> database \<Rightarrow> rejection + database" where
  "create_audit messId action db =
     (if messId \<noteq> None \<and> action \<noteq> [] then Inr (db\<lparr>auditLog := auditLog db @ [action]\<rparr>)
      else Inl ValidationError)"

text \<open>
  \<open>Notification.create\<close>: the schema requires \<open>messId\<close>, \<open>type\<close> (one of seven
  names), \<open>title\<close> and \<open>message\<close>.
\<close>

definition create_notification ::
  "oid option \<Rightarrow> string option \<Rightarrow> string \<Rightarrow> string option \<Rightarrow> oid \<Rightarrow> database \<Rightarrow> rejection + database" where
  "create_notification messId type title msg customerId db =
     (if messId \<noteq> None \<and> title \<noteq> [] \<and> \<not> falsy msg
         \<and> type \<in> set (map Some [''attendance'', ''meal'', ''system'', ''admin'', ''subscription'',
                                   ''payment'', ''emergency''])
      then Inr (db\<lparr>notifications := notifications db @ [(title, customerId)]\<rparr>)
      else Inl ValidationError)"

text \<open>\<open>n || d\<close> on a number that may be missing.\<close>

definition num_or :: "int option \<Rightarrow> int \<Rightarrow> int" where
  "num_or n d = (case n of None \<Rightarrow> d | Some v \<Rightarrow> if v = 0 then d else v)"

section \<open>\<open>Subscription.deductMeal\<close> (models/Subscription.js)\<close>

definition mealBalance :: "meal_type \<Rightarrow> meal_balances \<Rightarrow> rat" where
  "mealBalance m b =
     (case m of Breakfast \<Rightarrow> b_breakfast b | Lunch \<Rightarrow> b_lunch b | Dinner \<Rightarrow> b_dinner b
      | Snack \<Rightarrow> b_snack b)"

definition inc_balance :: "meal_type \<Rightarrow> rat \<Rightarrow> meal_balances \<Rightarrow> meal_balances" where
  "inc_balance m k b =
     (case m of
        Breakfast \<Rightarrow> b\<lparr>b_breakfast := b_breakfast b + k\<rparr>
      | Lunch \<Rightarrow> b\<lparr>b_lunch := b_lunch b + k\<rparr>
      | Dinner \<Rightarrow> b\<lparr>b_dinner := b_dinner b + k\<rparr>
      | Snack \<Rightarrow> b\<lparr>b_snack := b_snack b + k\<rparr>)"

text \<open>
  \<open>this\<close> is the document in memory and gives the \<open>_id\<close>; the filter is evaluated on
  the stored document. The schema declares \<open>mealBalances\<close> as a nested object, so
  \<open>this.mealBalances\<close> is an object on every document in memory, also when the stored
  document has no such field, and the test \<open>this.mealBalances && mealType\<close> is the test
  of \<open>mealType\<close>. A stored document without the field does not pass the filter on
  \<open>mealBalances.<mealType>\<close>.
\<close>

definition deductMeal ::
  "subscription \<Rightarrow> meal_type option \<Rightarrow> time \<Rightarrow> subscription list \<Rightarrow> subscription option \<times> subscription list" where
  "deductMeal this mealType now subs =
     (case mealType of
        Some m \<Rightarrow>
          update_first
            (\<lambda>s. s_id s = s_id this
                 \<and> (case s_mealBalances s of Some b \<Rightarrow> mealBalance m b > 0 | None \<Rightarrow> False)
                 \<and> s_active s)
            (\<lambda>s. s\<lparr>s_mealBalances := map_option (inc_balance m (- 1)) (s_mealBalances s),
                    s_updatedAt := now\<rparr>)
            subs
      | None \<Rightarrow>
          update_first
            (\<lambda>s. s_id s = s_id this \<and> s_mealsRemaining s > 0 \<and> s_active s)
            (\<lambda>s. s\<lparr>s_mealsRemaining := s_mealsRemaining s - 1, s_updatedAt := now\<rparr>)
            subs)"

section \<open>\<open>processScan\<close> of services/scanCore.js\<close>

datatype scan_status = SUCCESS | INVALID | WINDOW_CLOSED | ALREADY_USED | EXPIRED

record scan_request =
  r_customerId :: oid
  r_staffId :: "oid option"
  r_mealType :: "meal_type option"
  r_clientTime :: time

text \<open>
  The result: \<open>{success: false, status, message}\<close>, or the success object with the
  transaction, the remaining meals, \<open>needsRenewal\<close> and \<open>autoRenewed\<close>.
\<close>

datatype scan_outcome =
    Rejected scan_status string
  | Accepted meal_transaction rat bool bool

text \<open>What the handler holds in memory once its checks have passed.\<close>

record scan_snapshot =
  sn_customer :: customer
  sn_subscription :: subscription
  sn_mealType :: meal_type

text \<open>
  The records that \<open>processScan\<close> creates: none of them is given a \<open>messId\<close>, the
  user identifiers are \<open>staffId\<close>, and only the success record is given a \<open>qrCodeId\<close>
  and the two balances.
\<close>

definition scanCore_ids :: "scan_request \<Rightarrow> string option \<Rightarrow> transaction_ids" where
  "scanCore_ids req qrCodeId =
     \<lparr>ti_messId = None, ti_scannedByUserId = r_staffId req, ti_staffId = r_staffId req,
      ti_qrCodeId = qrCodeId\<rparr>"

definition failed_transaction ::
  "scan_request \<Rightarrow> oid \<Rightarrow> oid option \<Rightarrow> meal_type \<Rightarrow> tx_status \<Rightarrow> failure_reason option \<Rightarrow> oid option
     \<Rightarrow> meal_transaction" where
  "failed_transaction req cid sid m st reason dup =
     blank_transaction\<lparr>t_customerId := cid, t_subscriptionId := sid, t_mealType := Some m,
       t_status := st, t_failureReason := reason, t_duplicateOfTransaction := dup,
       t_timestamp := r_clientTime req\<rparr>"

text \<open>
  \<open>await MealTransaction.create({...}); return {success: false, ...}\<close>: the function has
  no \<open>try\<close>, so a rejected \<open>create\<close> is the rejection of \<open>processScan\<close>.
\<close>

definition scanCore_refuse ::
  "scan_request \<Rightarrow> meal_transaction \<Rightarrow> scan_outcome \<Rightarrow> database
     \<Rightarrow> (rejection + scan_outcome + scan_snapshot) \<times> database" where
  "scanCore_refuse req t outcome db =
     (case create_meal_transaction (scanCore_ids req None) t db of
        Inl err \<Rightarrow> (Inl err, db)
      | Inr (mealTx, db') \<Rightarrow> (Inr (Inl outcome), db'))"

text \<open>
  The first part of \<open>processScan\<close>, up to the test of \<open>mealsRemaining\<close>: \<open>Inl\<close> is a
  rejection, \<open>Inr (Inl _)\<close> a returned refusal, and \<open>Inr (Inr _)\<close> the state in which
  the code goes on to the deduction.
\<close>

definition scanCore_check ::
  "settings \<Rightarrow> time \<Rightarrow> scan_request \<Rightarrow> database
     \<Rightarrow> (rejection + scan_outcome + scan_snapshot) \<times> database" where
  "scanCore_check config now req db =
     (case find (\<lambda>c. c_id c = r_customerId req) (customers db) of
        None \<Rightarrow> (Inr (Inl (Rejected INVALID ''Customer not found'')), db)
      | Some cust \<Rightarrow>
          if \<not> c_active cust then (Inr (Inl (Rejected INVALID ''Customer inactive'')), db)
          else
            (case find_latest s_createdAt (\<lambda>s. s_customerId s = c_id cust \<and> s_active s)
                    (subscriptions db) of
               None \<Rightarrow>
                 scanCore_refuse req
                   (failed_transaction req (c_id cust) None
                      (case r_mealType req of Some m \<Rightarrow> m | None \<Rightarrow> Lunch)
                      Failed (Some NoSubscription) None)
                   (Rejected INVALID ''No active subscription'') db
             | Some sub \<Rightarrow>
                 (case (case r_mealType req of
                          Some m \<Rightarrow> Some m
                        | None \<Rightarrow> determineMealType config (getHours now) (getMinutes now)) of
                    None \<Rightarrow>
                      scanCore_refuse req
                        (failed_transaction req (c_id cust) (Some (s_id sub)) Lunch
                           Failed (Some InvalidMealWindow) None)
                        (Rejected WINDOW_CLOSED ''Outside meal window'') db
                  | Some resolvedMealType \<Rightarrow>
                      let windowSec = num_or (doubleScanWindowSeconds config) 30;
                          windowStart = now - windowSec * 1000
                      in (case find (\<lambda>t. t_customerId t = c_id cust
                                         \<and> t_mealType t = Some resolvedMealType
                                         \<and> t_timestamp t \<ge> windowStart
                                         \<and> t_status t = Success) (transactions db) of
                            Some duplicate \<Rightarrow>
                              scanCore_refuse req
                                (failed_transaction req (c_id cust) (Some (s_id sub))
                                   resolvedMealType Duplicate None (Some (t_id duplicate)))
                                (Rejected ALREADY_USED ''Already scanned for this meal'') db
                          | None \<Rightarrow>
                              if s_mealsRemaining sub \<le> 0 then
                                scanCore_refuse req
                                  (failed_transaction req (c_id cust) (Some (s_id sub))
                                     resolvedMealType Failed (Some NoMealsRemaining) None)
                                  (Rejected EXPIRED ''No meals remaining'') db
                              else
                                (Inr (Inr \<lparr>sn_customer = cust, sn_subscription = sub,
                                            sn_mealType = resolvedMealType\<rparr>), db)))))"

definition hasPaymentInfo :: "customer \<Rightarrow> bool" where
  "hasPaymentInfo c = (\<not> falsy (c_upiId c) \<or> c_preferredPaymentMethod c = CASH)"

definition day_ms :: int where
  "day_ms = 24 * 60 * 60 * 1000"

text \<open>
  The second part, from the comment \<open>Atomic deduction\<close> on: the new balance is computed
  from the subscription read in the first part and written with \<open>save()\<close>; then the
  success record is created, and what follows is reached only if that record is stored.
  The notifications are created with a \<open>title\<close> and neither \<open>messId\<close>, \<open>type\<close> nor
  \<open>message\<close>.
\<close>

definition scanCore_commit ::
  "time \<Rightarrow> scan_request \<Rightarrow> scan_snapshot \<Rightarrow> database \<Rightarrow> (rejection + scan_outcome) \<times> database" where
  "scanCore_commit now req snap db =
     (let cust = sn_customer snap;
          sub = sn_subscription snap;
          mealsRemainingBefore = s_mealsRemaining sub;
          remaining = max 0 (s_mealsRemaining sub - 1);
          db1 = save_subscription (s_id sub)
                  (\<lambda>s. s\<lparr>s_mealsRemaining := remaining, s_updatedAt := now\<rparr>) db
      in case create_meal_transaction (scanCore_ids req (Some (c_qrCodeId cust)))
                (blank_transaction\<lparr>t_customerId := c_id cust, t_subscriptionId := Some (s_id sub),
                   t_mealType := Some (sn_mealType snap), t_status := Success,
                   t_timestamp := r_clientTime req,
                   t_mealsRemainingBefore := Some mealsRemainingBefore,
                   t_mealsRemainingAfter := Some remaining\<rparr>) db1 of
           Inl err \<Rightarrow> (Inl err, db1)
         | Inr (mealTx, db2) \<Rightarrow>
     (let consumedCount =
             (if s_mealsTotal sub = 0 then c_billingCycleMeals cust else s_mealsTotal sub) - remaining;
          threshold = (if c_billingCycleMeals cust = 0 then 30 else c_billingCycleMeals cust)
      in if consumedCount \<ge> threshold \<or> remaining \<le> 0 then
           if c_autoRenew cust \<and> c_preferredPaymentMethod cust \<noteq> NONE \<and> hasPaymentInfo cust then
             let db3 = db2\<lparr>customers :=
                         snd (update_first (\<lambda>c. c_id c = c_id cust)
                                (\<lambda>c. c\<lparr>c_ledger := c_ledger cust
                                            @ [(c_billingAmount cust, c_preferredPaymentMethod cust)],
                                        c_lastPaymentAt := Some now\<rparr>)
                                (customers db2))\<rparr>;
                 newMeals = (if c_billingCycleMeals cust = 0 then 30 else c_billingCycleMeals cust);
                 db4 = save_subscription (s_id sub)
                         (\<lambda>s. s\<lparr>s_mealsRemaining := newMeals, s_mealsTotal := newMeals,
                                 s_endDate := now + 30 * day_ms, s_needsRenewal := False,
                                 s_updatedAt := now\<rparr>) db3
             in (case create_notification None None ''Auto-renewal completed'' None (c_id cust) db4 of
                   Inl err \<Rightarrow> (Inl err, db4)
                 | Inr db5 \<Rightarrow> (Inr (Accepted mealTx newMeals False True), db5))
           else
             (case create_notification None None ''Renewal required'' None (c_id cust) db2 of
                Inl err \<Rightarrow> (Inl err, db2)
              | Inr db3 \<Rightarrow>
                  (Inr (Accepted mealTx remaining True False),
                   save_subscription (s_id sub)
                     (\<lambda>s. s\<lparr>s_needsRenewal := True, s_updatedAt := now\<rparr>) db3))
         else (Inr (Accepted mealTx remaining (s_needsRenewal sub) False), db2)))"

text \<open>The whole of \<open>processScan\<close>, run with nothing else touching the store.\<close>

definition scanCore_processScan ::
  "settings \<Rightarrow> time \<Rightarrow> scan_request \<Rightarrow> database \<Rightarrow> (rejection + scan_outcome) \<times> database" where
  "scanCore_processScan config now req db =
     (case scanCore_check config now req db of
        (Inl err, db') \<Rightarrow> (Inl err, db')
      | (Inr (Inl refused), db') \<Rightarrow> (Inr refused, db')
      | (Inr (Inr snap), db') \<Rightarrow> scanCore_commit now req snap db')"

text \<open>A customer with one meal left, and two requests for that customer.\<close>

definition one_meal_db :: database where
  "one_meal_db =
     \<lparr>customers =
        [\<lparr>c_id = 1, c_messId = 7, c_active = True, c_qrCodeId = ''qr-1'', c_autoRenew = False,
          c_preferredPaymentMethod = NONE, c_upiId = None, c_billingAmount = 0,
          c_billingCycleMeals = 30, c_ledger = [], c_lastPaymentAt = None\<rparr>],
      subscriptions =
        [\<lparr>s_id = 5, s_customerId = 1, s_planMealTypes = None, s_mealsTotal = 30,
          s_mealsRemaining = 1, s_mealBalances = None, s_startDate = 0,
          s_endDate = 2000000000000, s_active = True, s_needsRenewal = False,
          s_pausedAt = None, s_createdAt = 0, s_updatedAt = 0\<rparr>],
      transactions = [], notifications = [], auditLog = []\<rparr>"

definition lunch_request :: scan_request where
  "lunch_request =
     \<lparr>r_customerId = 1, r_staffId = Some 9, r_mealType = Some Lunch, r_clientTime = 1700000000000\<rparr>"

definition dinner_request :: scan_request where
  "dinner_request =
     \<lparr>r_customerId = 1, r_staffId = Some 9, r_mealType = Some Dinner, r_clientTime = 1700000000500\<rparr>"

text \<open>
  Two calls whose first parts both run before either second part, as two requests that
  are served concurrently do: the results of the two calls and the store afterwards.
\<close>

definition interleaved_scans :: "(rejection + scan_outcome) list \<times> database" where
  "interleaved_scans =
     (case scanCore_check getDefaultSettings 1700000000000 lunch_request one_meal_db of
        (Inr (Inr snapA), db1) \<Rightarrow>
          (case scanCore_check getDefaultSettings 1700000000500 dinner_request db1 of
             (Inr (Inr snapB), db2) \<Rightarrow>
               (case scanCore_commit 1700000000000 lunch_request snapA db2 of
                  (resultA, db3) \<Rightarrow>
                    (case scanCore_commit 1700000000500 dinner_request snapB db3 of
                       (resultB, db4) \<Rightarrow> ([resultA, resultB], db4)))
           | (other, db2) \<Rightarrow> ([], db2))
      | (other, db1) \<Rightarrow> ([], db1))"

text \<open>
  A call that has read a balance of three and writes it back after two other calls have
  run from start to end: the stored balances at the start and after each write.
\<close>

definition three_meal_db :: database where
  "three_meal_db =
     one_meal_db\<lparr>subscriptions := map (\<lambda>s. s\<lparr>s_mealsRemaining := 3\<rparr>) (subscriptions one_meal_db)\<rparr>"

definition stale_write :: "rat list list" where
  "stale_write =
     (case scanCore_check getDefaultSettings 1700000000000 lunch_request three_meal_db of
        (Inr (Inr snapA), db1) \<Rightarrow>
          (let db2 = snd (scanCore_processScan getDefaultSettings 1700000000100 dinner_request db1);
               db3 = snd (scanCore_processScan getDefaultSettings 1700000000200 dinner_request db2);
               db4 = snd (scanCore_commit 1700000000300 lunch_request snapA db3)
           in map (\<lambda>d. map s_mealsRemaining (subscriptions d)) [three_meal_db, db2, db3, db4])
      | (other, db1) \<Rightarrow> [])"

section \<open>\<open>IdempotentScanService\<close> (services/idempotentScanService.js)\<close>

datatype api_error = INVALID_MEAL_TYPE | NO_MEALS_REMAINING

text \<open>
  \<open>getMealWindowBoundaries\<close>: the window of today for the meal type, from the full hour
  \<open>start\<close> to \<open>end\<close>:59:59.999, with the hours written in the code; any other meal type
  throws.
\<close>

definition window_hours :: "meal_type \<Rightarrow> (int \<times> int) option" where
  "window_hours m =
     (case m of Breakfast \<Rightarrow> Some (7, 10) | Lunch \<Rightarrow> Some (12, 15) | Dinner \<Rightarrow> Some (19, 22)
      | Snack \<Rightarrow> None)"

definition getMealWindowBoundaries :: "time \<Rightarrow> meal_type \<Rightarrow> api_error + (time \<times> time)" where
  "getMealWindowBoundaries now mealType =
     (let today = startOfDay now
      in case window_hours mealType of
           None \<Rightarrow> Inl INVALID_MEAL_TYPE
         | Some (start, end) \<Rightarrow>
             Inr (today + start * 3600000,
                  today + end * 3600000 + 59 * 60000 + 59 * 1000 + 999))"

definition findExistingScan ::
  "oid \<Rightarrow> meal_type \<Rightarrow> time \<Rightarrow> time \<Rightarrow> meal_transaction list \<Rightarrow> meal_transaction option" where
  "findExistingScan customerId mealType windowStart windowEnd txs =
     find_latest t_timestamp
       (\<lambda>t. t_customerId t = customerId \<and> t_mealType t = Some mealType \<and> t_status t = Success
            \<and> windowStart \<le> t_timestamp t \<and> t_timestamp t \<le> windowEnd)
       txs"

text \<open>
  \<open>deductMealAtomic\<close>: the filter object is written with the key \<open>mealsRemaining\<close>
  twice, so the second value \<open>{$gt: 0}\<close> is the one in the object and
  \<open>mealsRemainingBefore\<close> takes no part in the filter.
\<close>

definition deductMealAtomic ::
  "oid \<Rightarrow> rat \<Rightarrow> time \<Rightarrow> subscription list \<Rightarrow> subscription option \<times> subscription list" where
  "deductMealAtomic subscriptionId mealsRemainingBefore now subs =
     update_first (\<lambda>s. s_id s = subscriptionId \<and> s_mealsRemaining s > 0)
       (\<lambda>s. s\<lparr>s_mealsRemaining := s_mealsRemaining s - 1, s_updatedAt := now\<rparr>) subs"

datatype idempotent_result =
    Idempotent meal_transaction string
  | Processed meal_transaction subscription

text \<open>
  \<open>processScanIdempotent\<close> from STEP 2 on, given the window: the deduction, the second
  look for a success record when it fails, the transaction record and the deactivation.
  The \<open>metadata\<close> of the call is taken to carry the \<open>messId\<close>, \<open>staffId\<close> and
  \<open>qrCodeId\<close> that the schema requires, so that the record is stored.
\<close>

definition processScanIdempotent_deduct ::
  "time \<Rightarrow> oid \<Rightarrow> meal_type \<Rightarrow> subscription \<Rightarrow> time \<times> time \<Rightarrow> database
     \<Rightarrow> (api_error + idempotent_result) \<times> database" where
  "processScanIdempotent_deduct now customerId mealType subscription w db =
     (let mealsRemainingBefore = s_mealsRemaining subscription
      in case deductMealAtomic (s_id subscription) mealsRemainingBefore now (subscriptions db) of
           (None, subs) \<Rightarrow>
             (case findExistingScan customerId mealType (fst w) (snd w) (transactions db) of
                Some recentScan \<Rightarrow>
                  (Inr (Idempotent recentScan ''Concurrent scan already processed''), db)
              | None \<Rightarrow> (Inl NO_MEALS_REMAINING, db))
         | (Some updatedSubscription, subs) \<Rightarrow>
             let db1 = db\<lparr>subscriptions := subs\<rparr>;
                 (transaction, db2) =
                    create_transaction
                      (blank_transaction\<lparr>t_customerId := customerId,
                         t_subscriptionId := Some (s_id subscription),
                         t_mealType := Some mealType, t_status := Success,
                         t_mealsRemainingBefore := Some mealsRemainingBefore,
                         t_mealsRemainingAfter := Some (s_mealsRemaining updatedSubscription),
                         t_timestamp := now\<rparr>) db1
             in if s_mealsRemaining updatedSubscription = 0 then
                  (Inr (Processed transaction (updatedSubscription\<lparr>s_active := False\<rparr>)),
                   save_subscription (s_id updatedSubscription)
                     (\<lambda>s. s\<lparr>s_active := False, s_updatedAt := now\<rparr>) db2)
                else (Inr (Processed transaction updatedSubscription), db2))"

definition processScanIdempotent ::
  "time \<Rightarrow> oid \<Rightarrow> meal_type \<Rightarrow> subscription \<Rightarrow> database
     \<Rightarrow> (api_error + idempotent_result) \<times> database" where
  "processScanIdempotent now customerId mealType subscription db =
     (case getMealWindowBoundaries now mealType of
        Inl err \<Rightarrow> (Inl err, db)
      | Inr w \<Rightarrow>
          (case findExistingScan customerId mealType (fst w) (snd w) (transactions db) of
             Some existingScan \<Rightarrow>
               (Inr (Idempotent existingScan ''Scan already processed in this meal window''), db)
           | None \<Rightarrow> processScanIdempotent_deduct now customerId mealType subscription w db))"

definition is_processed :: "(api_error + idempotent_result) \<Rightarrow> bool" where
  "is_processed r = (case r of Inr (Processed _ _) \<Rightarrow> True | _ \<Rightarrow> False)"

text \<open>
  The answers that take no meal: the error of a meal type without a window or, for the
  other meal types, \<open>NO_MEALS_REMAINING\<close>, and the idempotent success with a
  transaction that is already recorded.
\<close>

definition takes_no_meal :: "meal_type \<Rightarrow> meal_transaction list \<Rightarrow> (api_error + idempotent_result) \<Rightarrow> bool" where
  "takes_no_meal mealType txs r =
     (case r of
        Inl err \<Rightarrow> err = (if window_hours mealType = None then INVALID_MEAL_TYPE else NO_MEALS_REMAINING)
      | Inr (Idempotent existing msg) \<Rightarrow> existing \<in> set txs
      | Inr (Processed t s) \<Rightarrow> False)"

text \<open>A subscription with five meals, and one with a single meal.\<close>

definition five_meal_db :: database where
  "five_meal_db =
     one_meal_db\<lparr>subscriptions := map (\<lambda>s. s\<lparr>s_mealsRemaining := 5\<rparr>) (subscriptions one_meal_db)\<rparr>"

definition the_subscription :: "database \<Rightarrow> subscription" where
  "the_subscription db = hd (subscriptions db)"

text \<open>Midnight of a day, and times of that day.\<close>

definition midnight :: time where
  "midnight = 1699920000000"

definition at_time :: "int \<Rightarrow> int \<Rightarrow> time" where
  "at_time h m = midnight + h * 3600000 + m * 60000"

text \<open>
  The first redemption of a lunch at 12:30 from the subscription with five meals, and the
  first redemptions at 11:30 and, from the subscription with one meal, at 12:30.
\<close>

definition lunch_tx :: meal_transaction where
  "lunch_tx =
     blank_transaction\<lparr>t_customerId := 1, t_subscriptionId := Some 5, t_mealType := Some Lunch,
       t_status := Success, t_mealsRemainingBefore := Some 5, t_mealsRemainingAfter := Some 4,
       t_timestamp := at_time 12 30\<rparr>"

definition lunch_sub :: subscription where
  "lunch_sub = (the_subscription five_meal_db)\<lparr>s_mealsRemaining := 4, s_updatedAt := at_time 12 30\<rparr>"

definition lunch_db :: database where
  "lunch_db =
     snd (processScanIdempotent (at_time 12 30) 1 Lunch (the_subscription five_meal_db) five_meal_db)"

definition early_db :: database where
  "early_db =
     snd (processScanIdempotent (at_time 11 30) 1 Lunch (the_subscription five_meal_db) five_meal_db)"

definition last_meal_tx :: meal_transaction where
  "last_meal_tx =
     blank_transaction\<lparr>t_customerId := 1, t_subscriptionId := Some 5, t_mealType := Some Lunch,
       t_status := Success, t_mealsRemainingBefore := Some 1, t_mealsRemainingAfter := Some 0,
       t_timestamp := at_time 12 30\<rparr>"

definition last_meal_sub :: subscription where
  "last_meal_sub =
     (the_subscription one_meal_db)\<lparr>s_mealsRemaining := 0, s_active := False,
        s_updatedAt := at_time 12 30\<rparr>"

definition last_meal_db :: database where
  "last_meal_db =
     snd (processScanIdempotent (at_time 12 30) 1 Lunch (the_subscription one_meal_db) one_meal_db)"

section \<open>\<open>MealScanner\<close> (utils/mealScanner.js)\<close>

text \<open>
  The scanner's settings are the settings document, whose schema gives every window a
  \<open>start\<close> and an \<open>end\<close>. \<open>verifyToken\<close> (a JWT check of a library) is an argument; it
  returns the payload or throws.
\<close>

record time_window =
  tw_start :: string
  tw_end :: string

record scanner_settings =
  ss_breakfast :: time_window
  ss_lunch :: time_window
  ss_dinner :: time_window
  ss_doubleScanWindowSeconds :: "int option"
  ss_alertThresholdMealsRemaining :: "int option"

record qr_payload =
  p_customerId :: oid
  p_messId :: oid
  p_qrCodeId :: "string option"

record scan_metadata =
  md_messId :: "oid option"
  md_qrCodeId :: "string option"
  md_adminOverride :: bool
  md_clientTimestamp :: "time option"
  md_clientId :: "string option"

text \<open>
  The object that \<open>processScan\<close> returns. A refusal carries its \<open>failureReason\<close>; the
  result of the \<open>catch\<close> block carries none, only the \<open>error\<close> text.
\<close>

record scan_result =
  sr_success :: bool
  sr_status :: tx_status
  sr_failureReason :: "failure_reason option"
  sr_error :: "string option"
  sr_transaction :: "meal_transaction option"
  sr_mealType :: "meal_type option"
  sr_mealsRemaining :: "rat option"
  sr_alert :: bool

definition in_window :: "string \<Rightarrow> time_window \<Rightarrow> bool" where
  "in_window t w = (str_le (tw_start w) t \<and> str_le t (tw_end w))"

definition getCurrentMealType :: "scanner_settings \<Rightarrow> time \<Rightarrow> meal_type option" where
  "getCurrentMealType cfg now =
     (let t = currentTime (getHours now) (getMinutes now)
      in if in_window t (ss_breakfast cfg) then Some Breakfast
         else if in_window t (ss_lunch cfg) then Some Lunch
         else if in_window t (ss_dinner cfg) then Some Dinner
         else None)"

text \<open>\<open>MealTransaction.findRecentTransaction\<close> behind \<open>checkDuplicateScan\<close>.\<close>

definition checkDuplicateScan ::
  "scanner_settings \<Rightarrow> time \<Rightarrow> oid \<Rightarrow> meal_type \<Rightarrow> meal_transaction list \<Rightarrow> meal_transaction option" where
  "checkDuplicateScan cfg now customerId mealType txs =
     (let windowSeconds = num_or (ss_doubleScanWindowSeconds cfg) 30;
          windowStart = now - windowSeconds * 1000
      in find_latest t_timestamp
           (\<lambda>t. t_customerId t = customerId \<and> t_mealType t = Some mealType \<and> t_status t = Success
                \<and> t_timestamp t \<ge> windowStart) txs)"

definition getErrorMessage :: "failure_reason \<Rightarrow> string" where
  "getErrorMessage failureReason =
     (case failureReason of
        InvalidQr \<Rightarrow> ''Invalid or expired QR code''
      | CustomerNotFound \<Rightarrow> ''Customer not found or inactive''
      | InvalidMealWindow \<Rightarrow> ''Outside meal serving hours''
      | DuplicateScan \<Rightarrow> ''Meal already scanned recently''
      | AlreadyScannedToday \<Rightarrow> ''You have already scanned for this meal today''
      | NoSubscription \<Rightarrow> ''No active subscription found''
      | SubscriptionPaused \<Rightarrow> ''Subscription is currently paused''
      | NoMealsRemaining \<Rightarrow> ''No meals remaining in subscription''
      | MealTypeNotAllowed \<Rightarrow> ''This meal type is not included in your plan'')"

text \<open>
  \<open>createFailedTransaction\<close>. The record is created when the customer, the subscription
  and \<open>metadata.messId\<close> are given, with the meal type of the moment or \<open>unknown\<close>; the
  audit entry when the customer and \<open>metadata.messId\<close> are given. Both are awaited
  and nothing is caught, so a rejected \<open>create\<close> is the rejection of the call (\<open>Inl\<close>).
\<close>

definition createFailedTransaction ::
  "scanner_settings \<Rightarrow> time \<Rightarrow> oid option \<Rightarrow> oid option \<Rightarrow> oid option \<Rightarrow> failure_reason
     \<Rightarrow> scan_metadata \<Rightarrow> oid option \<Rightarrow> database \<Rightarrow> (rejection + scan_result) \<times> database" where
  "createFailedTransaction cfg now customerId subscriptionId scannedByUserId failureReason metadata
       duplicateOfTransaction db =
     (let mealType = getCurrentMealType cfg now;
          status = (if failureReason = DuplicateScan then Blocked else Failed)
      in case (if customerId \<noteq> None \<and> subscriptionId \<noteq> None \<and> md_messId metadata \<noteq> None then
                 (case create_meal_transaction
                         \<lparr>ti_messId = md_messId metadata, ti_scannedByUserId = scannedByUserId,
                          ti_staffId = scannedByUserId,
                          ti_qrCodeId = js_or (md_qrCodeId metadata) (Some ''unknown'')\<rparr>
                         (blank_transaction\<lparr>t_customerId := the customerId,
                            t_subscriptionId := subscriptionId, t_mealType := mealType,
                            t_status := status, t_timestamp := now,
                            t_mealsRemainingBefore := Some 0, t_mealsRemainingAfter := Some 0,
                            t_failureReason := Some failureReason,
                            t_duplicateOfTransaction := duplicateOfTransaction,
                            t_clientTimestamp := md_clientTimestamp metadata,
                            t_clientId := md_clientId metadata\<rparr>) db of
                    Inl err \<Rightarrow> Inl err
                  | Inr (t, d) \<Rightarrow> Inr (Some t, d))
               else Inr (None, db)) of
           Inl err \<Rightarrow> (Inl err, db)
         | Inr (transaction, db1) \<Rightarrow>
             (case (if customerId \<noteq> None \<and> md_messId metadata \<noteq> None
                    then create_audit (md_messId metadata) ''scan_failed'' db1 else Inr db1) of
                Inl err \<Rightarrow> (Inl err, db1)
              | Inr db2 \<Rightarrow>
                  (Inr \<lparr>sr_success = False, sr_status = status,
                        sr_failureReason = Some failureReason,
                        sr_error = Some (getErrorMessage failureReason),
                        sr_transaction = transaction, sr_mealType = None,
                        sr_mealsRemaining = None, sr_alert = False\<rparr>, db2)))"

text \<open>What \<open>processScan\<close> holds when it reaches Step 6, the deduction.\<close>

record scan_ready =
  rd_payload :: qr_payload
  rd_customer :: customer
  rd_mealType :: meal_type
  rd_subscription :: subscription

text \<open>
  The arguments of a \<open>return this.createFailedTransaction(...)\<close>: the customer, the
  subscription, the reason and the transaction of which the scan is a duplicate.
\<close>

record failure_call =
  fc_customerId :: "oid option"
  fc_subscriptionId :: "oid option"
  fc_failureReason :: failure_reason
  fc_duplicateOfTransaction :: "oid option"

definition refuse :: "oid option \<Rightarrow> oid option \<Rightarrow> failure_reason \<Rightarrow> oid option \<Rightarrow> failure_call + scan_ready" where
  "refuse customerId subscriptionId failureReason duplicateOfTransaction =
     Inl \<lparr>fc_customerId = customerId, fc_subscriptionId = subscriptionId,
          fc_failureReason = failureReason, fc_duplicateOfTransaction = duplicateOfTransaction\<rparr>"

text \<open>
  Steps 1 to 5.5 of \<open>processScan\<close>, which only read the store: \<open>Inl\<close> is the call of
  \<open>createFailedTransaction\<close> with which the function returns, \<open>Inr\<close> the state in which
  it goes on to Step 6.
\<close>

definition processScan_decide ::
  "scanner_settings \<Rightarrow> (string \<Rightarrow> js_error + qr_payload) \<Rightarrow> time \<Rightarrow> string \<Rightarrow> scan_metadata
     \<Rightarrow> database \<Rightarrow> failure_call + scan_ready" where
  "processScan_decide cfg verifyToken now qrToken metadata db =
     (case verifyToken qrToken of
        Inl err \<Rightarrow>
          refuse None None InvalidQr None
      | Inr qrPayload \<Rightarrow>
     (case find (\<lambda>c. c_id c = p_customerId qrPayload \<and> c_messId c = p_messId qrPayload
                      \<and> c_active c) (customers db) of
        None \<Rightarrow>
          refuse None None CustomerNotFound None
      | Some customer \<Rightarrow>
     (case (case getCurrentMealType cfg now of
              Some m \<Rightarrow> Some m
            | None \<Rightarrow> if md_adminOverride metadata then Some Lunch else None) of
        None \<Rightarrow>
          refuse (Some (c_id customer)) None InvalidMealWindow None
      | Some mealType \<Rightarrow>
     (case checkDuplicateScan cfg now (c_id customer) mealType (transactions db) of
        Some duplicateTransaction \<Rightarrow>
          refuse (Some (c_id customer)) None DuplicateScan (Some (t_id duplicateTransaction))
      | None \<Rightarrow>
     (let today = startOfDay now;
          tomorrow = today + day_ms;
          todayTransaction =
            find (\<lambda>t. t_customerId t = c_id customer \<and> t_mealType t = Some mealType
                      \<and> t_status t = Success \<and> today \<le> t_timestamp t \<and> t_timestamp t < tomorrow)
              (transactions db)
      in if todayTransaction \<noteq> None \<and> \<not> md_adminOverride metadata then
           refuse (Some (c_id customer)) None AlreadyScannedToday (map_option t_id todayTransaction)
         else
     (case find (\<lambda>s. s_customerId s = c_id customer \<and> s_active s \<and> s_endDate s \<ge> now
                      \<and> s_mealsRemaining s > 0) (subscriptions db) of
        None \<Rightarrow>
          refuse (Some (c_id customer)) None NoSubscription None
      | Some subscription \<Rightarrow>
          if s_pausedAt subscription \<noteq> None then
            refuse (Some (c_id customer)) (Some (s_id subscription)) SubscriptionPaused None
          else if s_mealsRemaining subscription \<le> 0 then
            refuse (Some (c_id customer)) (Some (s_id subscription)) NoMealsRemaining None
          else if \<not> md_adminOverride metadata \<and> s_planMealTypes subscription \<noteq> None
                  \<and> mealType \<notin> set (the (s_planMealTypes subscription)) then
            refuse (Some (c_id customer)) (Some (s_id subscription)) MealTypeNotAllowed None
          else
            Inr \<lparr>rd_payload = qrPayload, rd_customer = customer, rd_mealType = mealType,
                 rd_subscription = subscription\<rparr>))))))"

text \<open>
  Steps 1 to 5.5 with the refusal carried out. The promise of
  \<open>createFailedTransaction\<close> is returned without \<open>await\<close>, so its rejection is not
  caught by the \<open>try\<close> around it: it is the rejection of \<open>processScan\<close>.
\<close>

definition processScan_check ::
  "scanner_settings \<Rightarrow> (string \<Rightarrow> js_error + qr_payload) \<Rightarrow> time \<Rightarrow> string \<Rightarrow> oid option
     \<Rightarrow> scan_metadata \<Rightarrow> database \<Rightarrow> (rejection + scan_result + scan_ready) \<times> database" where
  "processScan_check cfg verifyToken now qrToken scannedByUserId metadata db =
     (case processScan_decide cfg verifyToken now qrToken metadata db of
        Inl call \<Rightarrow>
          (case createFailedTransaction cfg now (fc_customerId call) (fc_subscriptionId call)
                  scannedByUserId (fc_failureReason call) metadata
                  (fc_duplicateOfTransaction call) db of
             (Inl err, db') \<Rightarrow> (Inl err, db')
           | (Inr refused, db') \<Rightarrow> (Inr (Inl refused), db'))
      | Inr ready \<Rightarrow> (Inr (Inr ready), db))"

text \<open>
  The \<open>catch\<close> block of \<open>processScan\<close>: the audit entry \<open>scan_error\<close> with
  \<open>metadata.messId\<close>, then the result \<open>System error occurred\<close>.
\<close>

definition processScan_catch :: "scan_metadata \<Rightarrow> database \<Rightarrow> (rejection + scan_result) \<times> database" where
  "processScan_catch metadata db =
     (case create_audit (md_messId metadata) ''scan_error'' db of
        Inl err \<Rightarrow> (Inl err, db)
      | Inr db' \<Rightarrow>
          (Inr \<lparr>sr_success = False, sr_status = Failed, sr_failureReason = None,
                sr_error = Some ''System error occurred'', sr_transaction = None,
                sr_mealType = None, sr_mealsRemaining = None, sr_alert = False\<rparr>, db'))"

text \<open>
  Steps 6 to 9: the deduction by \<open>deductMeal()\<close>, the deactivation at zero, the success
  record and the audit entry, both awaited inside the \<open>try\<close>.
\<close>

definition processScan_deduct ::
  "scanner_settings \<Rightarrow> time \<Rightarrow> oid option \<Rightarrow> scan_metadata \<Rightarrow> scan_ready \<Rightarrow> database
     \<Rightarrow> (rejection + scan_result) \<times> database" where
  "processScan_deduct cfg now scannedByUserId metadata ready db =
     (let customer = rd_customer ready;
          subscription = rd_subscription ready;
          mealsRemainingBefore = s_mealsRemaining subscription
      in case deductMeal subscription None now (subscriptions db) of
           (None, subs) \<Rightarrow>
             createFailedTransaction cfg now (Some (c_id customer)) (Some (s_id subscription))
               scannedByUserId NoMealsRemaining metadata None db
         | (Some updatedSubscription, subs) \<Rightarrow>
             let db1 = db\<lparr>subscriptions := subs\<rparr>;
                 db2 = (if s_mealsRemaining updatedSubscription = 0
                        then save_subscription (s_id updatedSubscription)
                               (\<lambda>s. s\<lparr>s_active := False, s_updatedAt := now\<rparr>) db1
                        else db1)
             in case create_meal_transaction
                       \<lparr>ti_messId = Some (c_messId customer), ti_scannedByUserId = scannedByUserId,
                        ti_staffId = scannedByUserId,
                        ti_qrCodeId = js_or (p_qrCodeId (rd_payload ready))
                                        (Some (c_qrCodeId customer))\<rparr>
                       (blank_transaction\<lparr>t_customerId := c_id customer,
                          t_subscriptionId := Some (s_id subscription),
                          t_mealType := Some (rd_mealType ready), t_status := Success,
                          t_timestamp := now,
                          t_mealsRemainingBefore := Some mealsRemainingBefore,
                          t_mealsRemainingAfter := Some (s_mealsRemaining updatedSubscription),
                          t_clientTimestamp := md_clientTimestamp metadata,
                          t_clientId := md_clientId metadata\<rparr>) db2 of
                  Inl err \<Rightarrow> processScan_catch metadata db2
                | Inr (transaction, db3) \<Rightarrow>
                    (case create_audit (Some (c_messId customer)) ''meal_scanned'' db3 of
                       Inl err \<Rightarrow> processScan_catch metadata db3
                     | Inr db4 \<Rightarrow>
                         let alertThreshold = num_or (ss_alertThresholdMealsRemaining cfg) 5
                         in (Inr \<lparr>sr_success = True, sr_status = Success, sr_failureReason = None,
                                  sr_error = None,
                                  sr_transaction = Some transaction,
                                  sr_mealType = Some (rd_mealType ready),
                                  sr_mealsRemaining = Some (s_mealsRemaining updatedSubscription),
                                  sr_alert =
                                    (s_mealsRemaining updatedSubscription \<le> of_int alertThreshold
                                     \<and> s_mealsRemaining updatedSubscription > 0)\<rparr>, db4)))"

definition processScan ::
  "scanner_settings \<Rightarrow> (string \<Rightarrow> js_error + qr_payload) \<Rightarrow> time \<Rightarrow> string \<Rightarrow> oid option
     \<Rightarrow> scan_metadata \<Rightarrow> database \<Rightarrow> (rejection + scan_result) \<times> database" where
  "processScan cfg verifyToken now qrToken scannedByUserId metadata db =
     (case processScan_check cfg verifyToken now qrToken scannedByUserId metadata db of
        (Inl err, db') \<Rightarrow> (Inl err, db')
      | (Inr (Inl refused), db') \<Rightarrow> (Inr refused, db')
      | (Inr (Inr ready), db') \<Rightarrow> processScan_deduct cfg now scannedByUserId metadata ready db')"

text \<open>
  The tests of \<open>processScan\<close> before the deduction, each as a condition of its own on
  the request and the store, in the order of the code, with the reason of the refusal.
  The lookup of the subscription asks for \<open>mealsRemaining > 0\<close>, so the test
  \<open>mealsRemaining <= 0\<close> that follows it in the code is not among them.
\<close>

definition scan_customer :: "(string \<Rightarrow> js_error + qr_payload) \<Rightarrow> string \<Rightarrow> database \<Rightarrow> customer option" where
  "scan_customer verifyToken qrToken db =
     (case verifyToken qrToken of
        Inl err \<Rightarrow> None
      | Inr p \<Rightarrow> find (\<lambda>c. c_id c = p_customerId p \<and> c_messId c = p_messId p \<and> c_active c)
                  (customers db))"

definition scan_mealType :: "scanner_settings \<Rightarrow> time \<Rightarrow> scan_metadata \<Rightarrow> meal_type option" where
  "scan_mealType cfg now metadata =
     (case getCurrentMealType cfg now of
        Some m \<Rightarrow> Some m
      | None \<Rightarrow> if md_adminOverride metadata then Some Lunch else None)"

definition scan_subscription :: "time \<Rightarrow> customer option \<Rightarrow> database \<Rightarrow> subscription option" where
  "scan_subscription now customer db =
     (case customer of
        None \<Rightarrow> None
      | Some c \<Rightarrow> find (\<lambda>s. s_customerId s = c_id c \<and> s_active s \<and> s_endDate s \<ge> now
                           \<and> s_mealsRemaining s > 0) (subscriptions db))"

definition scanned_today :: "time \<Rightarrow> oid \<Rightarrow> meal_type \<Rightarrow> meal_transaction list \<Rightarrow> bool" where
  "scanned_today now customerId mealType txs =
     (find (\<lambda>t. t_customerId t = customerId \<and> t_mealType t = Some mealType \<and> t_status t = Success
               \<and> startOfDay now \<le> t_timestamp t \<and> t_timestamp t < startOfDay now + day_ms) txs
        \<noteq> None)"

definition denial_checks ::
  "scanner_settings \<Rightarrow> (string \<Rightarrow> js_error + qr_payload) \<Rightarrow> time \<Rightarrow> string \<Rightarrow> scan_metadata
     \<Rightarrow> database \<Rightarrow> (bool \<times> failure_reason) list" where
  "denial_checks cfg verifyToken now qrToken metadata db =
     (let customer = scan_customer verifyToken qrToken db;
          mealType = scan_mealType cfg now metadata;
          subscription = scan_subscription now customer db
      in [(isl (verifyToken qrToken), InvalidQr),
          (customer = None, CustomerNotFound),
          (mealType = None, InvalidMealWindow),
          ((case (customer, mealType) of
              (Some c, Some m) \<Rightarrow> checkDuplicateScan cfg now (c_id c) m (transactions db) \<noteq> None
            | _ \<Rightarrow> False), DuplicateScan),
          ((case (customer, mealType) of
              (Some c, Some m) \<Rightarrow>
                 scanned_today now (c_id c) m (transactions db) \<and> \<not> md_adminOverride metadata
            | _ \<Rightarrow> False), AlreadyScannedToday),
          (subscription = None, NoSubscription),
          ((case subscription of Some s \<Rightarrow> s_pausedAt s \<noteq> None | None \<Rightarrow> False), SubscriptionPaused),
          ((case (subscription, mealType) of
              (Some s, Some m) \<Rightarrow>
                 \<not> md_adminOverride metadata \<and> s_planMealTypes s \<noteq> None
                 \<and> m \<notin> set (the (s_planMealTypes s))
            | _ \<Rightarrow> False), MealTypeNotAllowed)])"

definition first_failing :: "(bool \<times> failure_reason) list \<Rightarrow> failure_reason option" where
  "first_failing checks = map_option snd (find fst checks)"

text \<open>The reason of the refusal with which the checks end, if they end with one.\<close>

definition decided :: "failure_call + scan_ready \<Rightarrow> failure_reason option" where
  "decided d = (case d of Inl call \<Rightarrow> Some (fc_failureReason call) | Inr ready \<Rightarrow> None)"

section \<open>\<open>ScanService.processScan\<close> (services/scanService.js)\<close>

datatype scanner_role = Admin | Staff | OtherRole

datatype service_error =
    TOKEN_ERROR js_error | WRONG_MESS | UNAUTHORIZED_ROLE | CUSTOMER_NOT_FOUND | CUSTOMER_INACTIVE
  | DUPLICATE_SCAN | NO_SUBSCRIPTION | NO_MEALS | VALIDATION_ERROR

record service_metadata =
  sm_messId :: oid
  sm_scannerRole :: scanner_role
  sm_adminOverride :: bool

definition service_mealType :: "time \<Rightarrow> meal_type" where
  "service_mealType now =
     (let hour = getHours now
      in if hour \<ge> 6 \<and> hour < 11 then Breakfast
         else if hour \<ge> 11 \<and> hour < 16 then Lunch
         else if hour \<ge> 16 \<and> hour < 22 then Dinner
         else Snack)"

definition service_duplicate :: "time \<Rightarrow> oid \<Rightarrow> meal_transaction list \<Rightarrow> meal_transaction option" where
  "service_duplicate now customerId txs =
     find (\<lambda>t. t_customerId t = customerId \<and> t_mealType t = Some (service_mealType now)
               \<and> startOfDay now \<le> t_timestamp t \<and> t_timestamp t \<le> startOfDay now + day_ms - 1
               \<and> t_status t = Success) txs"

text \<open>The transaction record of Step 9 and the identifiers given with it.\<close>

definition service_ids :: "oid option \<Rightarrow> service_metadata \<Rightarrow> customer \<Rightarrow> transaction_ids" where
  "service_ids scannedByUserId metadata customer =
     \<lparr>ti_messId = Some (sm_messId metadata), ti_scannedByUserId = scannedByUserId,
      ti_staffId = scannedByUserId, ti_qrCodeId = Some (c_qrCodeId customer)\<rparr>"

definition service_record :: "time \<Rightarrow> customer \<Rightarrow> subscription \<Rightarrow> subscription \<Rightarrow> meal_transaction" where
  "service_record now customer subscription updatedSubscription =
     blank_transaction\<lparr>t_customerId := c_id customer,
       t_subscriptionId := Some (s_id subscription),
       t_mealType := Some (service_mealType now), t_timestamp := now,
       t_mealsRemainingBefore := Some (s_mealsRemaining subscription + 1),
       t_mealsRemainingAfter := Some (s_mealsRemaining updatedSubscription),
       t_status := Success\<rparr>"

text \<open>
  The reads and writes run in a database transaction of the session. Every \<open>throw\<close>,
  and the rejection of the \<open>create\<close> of Step 9 by the validators, is caught, the
  transaction is aborted, which undoes the decrement of Step 8, and the error is thrown
  again: the store is as it was.
\<close>

definition scanService_processScan ::
  "(string \<Rightarrow> js_error + qr_payload) \<Rightarrow> time \<Rightarrow> string \<Rightarrow> oid option \<Rightarrow> service_metadata
     \<Rightarrow> database \<Rightarrow> (service_error + meal_transaction) \<times> database" where
  "scanService_processScan verifyToken now qrToken scannedByUserId metadata db =
     (case verifyToken qrToken of
        Inl err \<Rightarrow> (Inl (TOKEN_ERROR err), db)
      | Inr tokenData \<Rightarrow>
          if p_messId tokenData \<noteq> sm_messId metadata then (Inl WRONG_MESS, db)
          else if sm_scannerRole metadata \<noteq> Admin \<and> sm_scannerRole metadata \<noteq> Staff
          then (Inl UNAUTHORIZED_ROLE, db)
          else
            (case find (\<lambda>c. c_id c = p_customerId tokenData) (customers db) of
               None \<Rightarrow> (Inl CUSTOMER_NOT_FOUND, db)
             | Some customer \<Rightarrow>
                 if \<not> c_active customer then (Inl CUSTOMER_INACTIVE, db)
                 else
                   let mealType = service_mealType now
                   in if service_duplicate now (c_id customer) (transactions db) \<noteq> None
                         \<and> \<not> sm_adminOverride metadata
                      then (Inl DUPLICATE_SCAN, db)
                      else
                        (case find (\<lambda>s. s_customerId s = c_id customer \<and> s_active s
                                         \<and> s_endDate s \<ge> now) (subscriptions db) of
                           None \<Rightarrow> (Inl NO_SUBSCRIPTION, db)
                         | Some subscription \<Rightarrow>
                             (case update_first
                                     (\<lambda>s. s_id s = s_id subscription \<and> s_mealsRemaining s > 0
                                          \<and> s_active s)
                                     (\<lambda>s. s\<lparr>s_mealsRemaining := s_mealsRemaining s - 1,
                                             s_updatedAt := now\<rparr>)
                                     (subscriptions db) of
                                (None, subs) \<Rightarrow> (Inl NO_MEALS, db)
                              | (Some updatedSubscription, subs) \<Rightarrow>
                                  (case create_meal_transaction
                                          (service_ids scannedByUserId metadata customer)
                                          (service_record now customer subscription
                                             updatedSubscription)
                                          (db\<lparr>subscriptions := subs\<rparr>) of
                                     Inl err \<Rightarrow> (Inl VALIDATION_ERROR, db)
                                   | Inr (transaction, db') \<Rightarrow> (Inr transaction, db'))))))"

text \<open>Its checks, each as a condition of its own, in the order of the code.\<close>

definition service_customer :: "(string \<Rightarrow> js_error + qr_payload) \<Rightarrow> string \<Rightarrow> database \<Rightarrow> customer option" where
  "service_customer verifyToken qrToken db =
     (case verifyToken qrToken of
        Inl err \<Rightarrow> None
      | Inr p \<Rightarrow> find (\<lambda>c. c_id c = p_customerId p) (customers db))"

definition service_subscription :: "time \<Rightarrow> customer option \<Rightarrow> database \<Rightarrow> subscription option" where
  "service_subscription now customer db =
     (case customer of
        None \<Rightarrow> None
      | Some c \<Rightarrow> find (\<lambda>s. s_customerId s = c_id c \<and> s_active s \<and> s_endDate s \<ge> now)
                  (subscriptions db))"

definition service_update :: "time \<Rightarrow> subscription option \<Rightarrow> database \<Rightarrow> subscription option" where
  "service_update now subscription db =
     (case subscription of
        None \<Rightarrow> None
      | Some s \<Rightarrow> fst (update_first
                        (\<lambda>x. s_id x = s_id s \<and> s_mealsRemaining x > 0 \<and> s_active x)
                        (\<lambda>x. x\<lparr>s_mealsRemaining := s_mealsRemaining x - 1, s_updatedAt := now\<rparr>)
                        (subscriptions db)))"

definition service_checks ::
  "(string \<Rightarrow> js_error + qr_payload) \<Rightarrow> time \<Rightarrow> string \<Rightarrow> oid option \<Rightarrow> service_metadata
     \<Rightarrow> database \<Rightarrow> (bool \<times> service_error) list" where
  "service_checks verifyToken now qrToken scannedByUserId metadata db =
     (let customer = service_customer verifyToken qrToken db;
          subscription = service_subscription now customer db;
          updatedSubscription = service_update now subscription db
      in [(isl (verifyToken qrToken),
             TOKEN_ERROR (case verifyToken qrToken of Inl err \<Rightarrow> err | Inr p \<Rightarrow> JSError [])),
          ((case verifyToken qrToken of Inr p \<Rightarrow> p_messId p \<noteq> sm_messId metadata | Inl err \<Rightarrow> False),
             WRONG_MESS),
          (sm_scannerRole metadata \<noteq> Admin \<and> sm_scannerRole metadata \<noteq> Staff, UNAUTHORIZED_ROLE),
          (customer = None, CUSTOMER_NOT_FOUND),
          ((case customer of Some c \<Rightarrow> \<not> c_active c | None \<Rightarrow> False), CUSTOMER_INACTIVE),
          ((case customer of
              Some c \<Rightarrow> service_duplicate now (c_id c) (transactions db) \<noteq> None
                         \<and> \<not> sm_adminOverride metadata
            | None \<Rightarrow> False), DUPLICATE_SCAN),
          (subscription = None, NO_SUBSCRIPTION),
          (subscription \<noteq> None \<and> updatedSubscription = None, NO_MEALS),
          ((case (customer, subscription, updatedSubscription) of
              (Some c, Some s, Some u) \<Rightarrow>
                 \<not> valid_transaction (service_ids scannedByUserId metadata c)
                      (service_record now c s u)
            | _ \<Rightarrow> False), VALIDATION_ERROR)])"

definition first_error :: "(bool \<times> service_error) list \<Rightarrow> service_error option" where
  "first_error checks = map_option snd (find fst checks)"

definition thrown :: "(service_error + meal_transaction) \<Rightarrow> service_error option" where
  "thrown r = (case r of Inl err \<Rightarrow> Some err | Inr t \<Rightarrow> None)"

section \<open>Example requests for the scanner\<close>

definition example_verifyToken :: "string \<Rightarrow> js_error + qr_payload" where
  "example_verifyToken token =
     (if token = ''token-1''
      then Inr \<lparr>p_customerId = 1, p_messId = 7, p_qrCodeId = Some ''qr-1''\<rparr>
      else Inl (JSError ''jwt malformed''))"

definition default_scanner_settings :: scanner_settings where
  "default_scanner_settings =
     \<lparr>ss_breakfast = \<lparr>tw_start = ''06:00'', tw_end = ''10:00''\<rparr>,
      ss_lunch = \<lparr>tw_start = ''12:00'', tw_end = ''15:00''\<rparr>,
      ss_dinner = \<lparr>tw_start = ''19:00'', tw_end = ''22:00''\<rparr>,
      ss_doubleScanWindowSeconds = Some 30,
      ss_alertThresholdMealsRemaining = Some 5\<rparr>"

definition example_metadata :: scan_metadata where
  "example_metadata =
     \<lparr>md_messId = Some 7, md_qrCodeId = None, md_adminOverride = False,
      md_clientTimestamp = None, md_clientId = None\<rparr>"

definition no_subscription_db :: database where
  "no_subscription_db = one_meal_db\<lparr>subscriptions := []\<rparr>"

definition breakfast_lunch_db :: database where
  "breakfast_lunch_db =
     one_meal_db\<lparr>subscriptions :=
       map (\<lambda>s. s\<lparr>s_mealsRemaining := 5, s_planMealTypes := Some [Breakfast, Lunch]\<rparr>)
         (subscriptions one_meal_db)\<rparr>"

definition staff_metadata :: service_metadata where
  "staff_metadata = \<lparr>sm_messId = 7, sm_scannerRole = Staff, sm_adminOverride = False\<rparr>"

definition scanned_lunch_db :: database where
  "scanned_lunch_db =
     no_subscription_db\<lparr>transactions :=
       [blank_transaction\<lparr>t_customerId := 1, t_subscriptionId := Some 5, t_mealType := Some Lunch,
          t_status := Success, t_timestamp := at_time 12 0\<rparr>]\<rparr>"

text \<open>The refusal of a customer who has scanned the meal today.\<close>

definition already_scanned_refusal :: scan_result where
  "already_scanned_refusal =
     \<lparr>sr_success = False, sr_status = Failed, sr_failureReason = Some AlreadyScannedToday,
      sr_error = Some ''You have already scanned for this meal today'', sr_transaction = None,
      sr_mealType = None, sr_mealsRemaining = None, sr_alert = False\<rparr>"

section \<open>Batch redemption: \<open>POST /scan/batch\<close> (routes/scanBatch.js)\<close>

datatype batch_reason =
    MissingQrToken | InvalidQrSignature | InvalidQrPayload | UnknownCustomer | NoActiveSubscription
  | OutsideMealWindow | DuplicateScanReason | NoMealsRemainingReason | ServerError

record batch_scan =
  bs_qrToken :: "string option"
  bs_clientTimestamp :: "time option"
  bs_clientId :: "string option"

record batch_result =
  br_success :: bool
  br_status :: tx_status
  br_reason :: "batch_reason option"
  br_clientId :: "string option"
  br_mealsRemaining :: "rat option"
  br_mealType :: "meal_type option"

text \<open>The payload of a credential: \<open>None\<close> is a JSON value without fields, such as \<open>null\<close>.\<close>

record qr_card =
  qc_qrCodeId :: "string option"

definition denied :: "tx_status \<Rightarrow> batch_reason \<Rightarrow> string option \<Rightarrow> batch_result" where
  "denied status reason clientId =
     \<lparr>br_success = False, br_status = status, br_reason = Some reason, br_clientId = clientId,
      br_mealsRemaining = None, br_mealType = None\<rparr>"

text \<open>\<open>clientTimestamp || d\<close>.\<close>

definition time_or :: "time option \<Rightarrow> time \<Rightarrow> time" where
  "time_or t d = num_or t d"

text \<open>
  \<open>logAudit(action, userId, details)\<close> creates the audit entry with
  \<open>messId: details.messId\<close> inside a \<open>try\<close> whose \<open>catch\<close> is empty, and no call
  in this file puts a \<open>messId\<close> into \<open>details\<close>.
\<close>

definition logAudit :: "string \<Rightarrow> database \<Rightarrow> database" where
  "logAudit action db = (case create_audit None action db of Inl err \<Rightarrow> db | Inr db' \<Rightarrow> db')"

text \<open>
  \<open>processSingleScan\<close>. The meal type is resolved by \<open>determineMealType(settings,
  clientTimestamp)\<close>, a function of one parameter that reads the current time. The
  success record is built from \<open>subscriptionId\<close>, \<open>customerId\<close>, \<open>scannedByUserId\<close>,
  \<open>mealType\<close>, \<open>status\<close> and \<open>timestamp\<close> and saved after the decrement; the whole
  body is in a \<open>try\<close> whose \<open>catch\<close> answers \<open>server_error\<close>.
\<close>

definition processSingleScan ::
  "settings \<Rightarrow> (string \<Rightarrow> string \<Rightarrow> js_error + byte list) \<Rightarrow> (string \<Rightarrow> js_error + qr_card option)
     \<Rightarrow> string \<Rightarrow> oid option \<Rightarrow> time \<Rightarrow> batch_scan \<Rightarrow> database \<Rightarrow> batch_result \<times> database" where
  "processSingleScan config hmac parse secret userId now scanRequest db =
     (let clientTimestamp = bs_clientTimestamp scanRequest;
          clientId = bs_clientId scanRequest
      in if falsy (bs_qrToken scanRequest) then
           (denied Failed MissingQrToken clientId, logAudit ''batch_scan_validation_failed'' db)
         else
     (case verifyQrToken hmac parse (JSString (the (bs_qrToken scanRequest))) secret of
        Inl err \<Rightarrow> (denied Failed ServerError clientId, logAudit ''batch_scan_error'' db)
      | Inr (Invalid e) \<Rightarrow>
          (denied Blocked InvalidQrSignature clientId, logAudit ''batch_scan_blocked'' db)
      | Inr (Valid None) \<Rightarrow> (denied Failed ServerError clientId, logAudit ''batch_scan_error'' db)
      | Inr (Valid (Some payload)) \<Rightarrow>
     if falsy (qc_qrCodeId payload) then
       (denied Failed InvalidQrPayload clientId, logAudit ''batch_scan_blocked'' db)
     else
     (case find (\<lambda>c. c_qrCodeId c = the (qc_qrCodeId payload) \<and> c_active c) (customers db) of
        None \<Rightarrow> (denied Blocked UnknownCustomer clientId, logAudit ''batch_scan_blocked'' db)
      | Some customer \<Rightarrow>
     (let refDate = time_or clientTimestamp now;
          today = startOfDay refDate
      in case find_latest s_updatedAt
                (\<lambda>s. s_customerId s = c_id customer \<and> s_active s \<and> s_mealsRemaining s > 0
                     \<and> s_startDate s \<le> today \<and> s_endDate s \<ge> today) (subscriptions db) of
           None \<Rightarrow>
             (denied Blocked NoActiveSubscription clientId, logAudit ''batch_scan_blocked'' db)
         | Some subscription \<Rightarrow>
     (case determineMealType config (getHours now) (getMinutes now) of
        None \<Rightarrow> (denied Blocked OutsideMealWindow clientId, logAudit ''batch_scan_blocked'' db)
      | Some mealType \<Rightarrow>
     (let windowSec = num_or (doubleScanWindowSeconds config) 30;
          windowStart = time_or clientTimestamp now - windowSec * 1000
      in case find_latest t_timestamp
                (\<lambda>t. t_subscriptionId t = Some (s_id subscription) \<and> t_mealType t = Some mealType
                     \<and> t_timestamp t \<ge> windowStart \<and> t_status t = Success) (transactions db) of
           Some lastScan \<Rightarrow>
             (denied Blocked DuplicateScanReason clientId, logAudit ''batch_scan_blocked'' db)
         | None \<Rightarrow>
     (case update_first (\<lambda>s. s_id s = s_id subscription \<and> s_mealsRemaining s > 0)
             (\<lambda>s. s\<lparr>s_mealsRemaining := s_mealsRemaining s - 1, s_updatedAt := now\<rparr>)
             (subscriptions db) of
        (None, subs) \<Rightarrow>
          (denied Blocked NoMealsRemainingReason clientId, logAudit ''batch_scan_blocked'' db)
      | (Some updatedSubscription, subs) \<Rightarrow>
          (case create_meal_transaction
                  \<lparr>ti_messId = None, ti_scannedByUserId = userId, ti_staffId = None,
                   ti_qrCodeId = None\<rparr>
                  (blank_transaction\<lparr>t_subscriptionId := Some (s_id subscription),
                     t_customerId := c_id customer, t_mealType := Some mealType,
                     t_status := Success, t_timestamp := time_or clientTimestamp now\<rparr>)
                  (db\<lparr>subscriptions := subs\<rparr>) of
             Inl err \<Rightarrow>
               (denied Failed ServerError clientId,
                logAudit ''batch_scan_error'' (db\<lparr>subscriptions := subs\<rparr>))
           | Inr (mealTransaction, db1) \<Rightarrow>
               (\<lparr>br_success = True, br_status = Success, br_reason = None,
                  br_clientId = clientId,
                  br_mealsRemaining = Some (s_mealsRemaining updatedSubscription),
                  br_mealType = Some mealType\<rparr>,
                logAudit ''batch_scan_success'' db1)))))))))"






section \<open>Batch redemption: \<open>MealScanner.processBatch\<close>\<close>







section \<open>Example batches\<close>

definition example_card_parse :: "string \<Rightarrow> js_error + qr_card option" where
  "example_card_parse p =
     (if p = ''cXItMQ=='' then Inr (Some \<lparr>qc_qrCodeId = Some ''qr-1''\<rparr>)
      else Inl (JSError ''Unexpected token''))"

definition example_token :: string where
  "example_token = ''cXItMQ==.00000000000000000000000000000000000000000000000000000000000000fb''"

definition scan_at :: "time \<Rightarrow> string \<Rightarrow> batch_scan" where
  "scan_at t clientId =
     \<lparr>bs_qrToken = Some example_token, bs_clientTimestamp = Some t, bs_clientId = Some clientId\<rparr>"







text \<open>The store of a customer whose subscription has no meal left.\<close>

definition spent_db :: database where
  "spent_db =
     one_meal_db\<lparr>subscriptions := map (\<lambda>s. s\<lparr>s_mealsRemaining := 0\<rparr>) (subscriptions one_meal_db)\<rparr>"

section \<open>Properties of the token codec\<close>

lemma hex_val_digits: "list_all (\<lambda>n. hex_val (hex_digit n) = Some n) [0..<16]"
  by code_simp

lemma hex_val_digit: "n < 16 \<Longrightarrow> hex_val (hex_digit n) = Some n"
  using hex_val_digits by (simp add: list_all_iff)

text \<open>Decoding the hexadecimal digest gives the digest back.\<close>

lemma from_hex_to_hex: "from_hex (to_hex bs) = bs"
proof (induction bs)
  case Nil
  then show ?case by (simp add: to_hex_def)
next
  case (Cons b bs)
  have "unat b < 256" using unsigned_less [of b] by simp
  then have d: "unat b div 16 < 16" by simp
  have m: "unat b mod 16 < 16" by simp
  from Cons show ?case
    by (simp add: to_hex_def hex_val_digit [OF d] hex_val_digit [OF m])
qed

lemma split_on_append: "d \<notin> set p \<Longrightarrow> split_on d (p @ d # rest) = p # split_on d rest"
  by (induction p) (auto split: list.splits)

lemma split_on_cases: "\<exists>w ws. split_on d s = w # ws"
  by (induction s) (auto split: list.splits)

text \<open>The codec on a string, by the number of segments.\<close>

lemma verify_one_segment:
  assumes "split_on CHR ''.'' t = [w]"
  shows "verifyQrToken hmac parse (JSString t) secret =
     Inr (Invalid (if t = [] then ''Invalid token type'' else ''Missing payload or signature''))"
  using assms
  by (simp add: verifyQrToken_def verifyQrToken_try_def element_def falsy_def)

lemma verify_segments:
  assumes "split_on CHR ''.'' t = p # s # others"
  shows "verifyQrToken hmac parse (JSString t) secret =
     (if p = [] \<or> s = [] then Inr (Invalid ''Missing payload or signature'')
      else case hmac secret p of
             Inl err \<Rightarrow> Inr (Invalid (message err))
           | Inr d \<Rightarrow>
               if length d \<noteq> length (from_hex s) then Inr (Invalid length_message)
               else if d \<noteq> from_hex s then Inr (Invalid ''Signature mismatch'')
               else (case parse p of
                       Inl err \<Rightarrow> Inr (Invalid (message err))
                     | Inr v \<Rightarrow> Inr (Valid v)))"
proof -
  have t: "t \<noteq> []" using assms by (cases t) auto
  show ?thesis
    unfolding verifyQrToken_def verifyQrToken_try_def
    using t assms
    by (simp add: element_def falsy_def timingSafeEqual_def from_hex_to_hex
        split: sum.split)
qed

text \<open>
  The \<open>try\<close> block itself does throw: a signature segment that decodes to a buffer of
  another length than the digest makes \<open>timingSafeEqual\<close> raise.
\<close>

lemma verifyQrToken_try_throws:
  "verifyQrToken_try example_mac example_parse (JSString ''bnVsbA==.00'') ''k''
     = Inl (JSError length_message)"
  by code_simp

text \<open>
  Without a verified MAC the result is a rejection, and it is the same whatever the parser
  is: the payload is not parsed before the MAC has been checked.
\<close>

lemma verify_unverified:
  assumes "\<not> mac_verified hmac secret t"
  shows "verifyQrToken hmac parse (JSString t) secret = verifyQrToken hmac parse' (JSString t) secret
      \<and> verifyQrToken hmac parse (JSString t) secret \<noteq> Inr (Valid v)"
proof -
  obtain w ws where s: "split_on CHR ''.'' t = w # ws" using split_on_cases by blast
  show ?thesis
  proof (cases ws)
    case Nil
    with s show ?thesis by (simp add: verify_one_segment)
  next
    case (Cons sg ws')
    with s assms show ?thesis
      by (cases "hmac secret w") (simp_all add: verify_segments mac_verified_def)
  qed
qed

lemma flip_at_set:
  "CHR ''.'' \<notin> set p \<Longrightarrow> flip_char i (p ! j) \<noteq> CHR ''.'' \<Longrightarrow> CHR ''.'' \<notin> set (flip_at j i p)"
  using set_update_subset_insert [of p j "flip_char i (p ! j)"]
  by (auto simp: flip_at_def)

lemma verify_flipped:
  assumes valid: "verifyQrToken hmac parse (JSString (p @ CHR ''.'' # rest)) secret = Inr (Valid v)"
    and nodot: "CHR ''.'' \<notin> set p"
    and j: "j < length p"
    and keep: "flip_char i (p ! j) \<noteq> CHR ''.''"
    and mac: "hmac secret p = Inr d" "hmac secret (flip_at j i p) = Inr d'"
    and diff: "d' \<noteq> d" "length d' = length d"
  shows "verifyQrToken hmac parse' (JSString (flip_at j i p @ CHR ''.'' # rest)) secret
           = Inr (Invalid ''Signature mismatch'')"
proof -
  obtain s others where s: "split_on CHR ''.'' rest = s # others" using split_on_cases by blast
  have sp: "split_on CHR ''.'' (p @ CHR ''.'' # rest) = p # s # others"
    using nodot s by (simp add: split_on_append)
  from valid have ok: "p \<noteq> [] \<and> s \<noteq> [] \<and> d = from_hex s"
    using mac(1) by (simp add: verify_segments [OF sp] split: if_splits)
  have nodot': "CHR ''.'' \<notin> set (flip_at j i p)" using nodot keep by (rule flip_at_set)
  have sp': "split_on CHR ''.'' (flip_at j i p @ CHR ''.'' # rest) = flip_at j i p # s # others"
    using nodot' s by (simp add: split_on_append)
  have ne: "flip_at j i p \<noteq> []" using j by (auto simp: flip_at_def)
  show ?thesis
    using ok ne mac(2) diff by (simp add: verify_segments [OF sp'])
qed

text \<open>
  Claim C2, as the code has it. For every credential string and secret the MAC over the
  received payload segment is recomputed and compared by \<open>timingSafeEqual\<close> before the
  payload is parsed: a string whose MAC does not verify is rejected, with the same result
  for every parser. For a valid credential, flipping a bit of the payload segment that does
  not turn the character into the delimiter \<open>.\<close> gives the result
  \<open>Signature mismatch\<close>, for every parser, whenever the MAC of the changed segment is
  another digest of the same length (HMAC-SHA256 is a parameter of the model).
\<close>

theorem verifyQrToken_mac_before_parse:
  assumes "verifyQrToken hmac parse (JSString (p @ CHR ''.'' # rest)) secret = Inr (Valid v)"
    and "CHR ''.'' \<notin> set p"
    and "j < length p"
    and "flip_char i (p ! j) \<noteq> CHR ''.''"
    and "hmac secret p = Inr d" and "hmac secret (flip_at j i p) = Inr d'"
    and "d' \<noteq> d" and "length d' = length d"
  shows "(\<forall>t parse1 parse2 u. \<not> mac_verified hmac secret t \<longrightarrow>
            verifyQrToken hmac parse1 (JSString t) secret = verifyQrToken hmac parse2 (JSString t) secret
            \<and> verifyQrToken hmac parse1 (JSString t) secret \<noteq> Inr (Valid (u :: 'p)))
       \<and> (\<forall>parse'. verifyQrToken hmac (parse' :: string \<Rightarrow> js_error + 'p)
              (JSString (flip_at j i p @ CHR ''.'' # rest)) secret
            = Inr (Invalid ''Signature mismatch''))"
proof (intro conjI allI impI)
  fix t and parse1 parse2 :: "string \<Rightarrow> js_error + 'p" and u :: 'p
  assume "\<not> mac_verified hmac secret t"
  then show "verifyQrToken hmac parse1 (JSString t) secret = verifyQrToken hmac parse2 (JSString t) secret"
    by (rule verify_unverified [THEN conjunct1])
next
  fix t and parse1 :: "string \<Rightarrow> js_error + 'p" and u :: 'p
  assume "\<not> mac_verified hmac secret t"
  then show "verifyQrToken hmac parse1 (JSString t) secret \<noteq> Inr (Valid u)"
    by (rule verify_unverified [THEN conjunct2])
next
  fix parse' :: "string \<Rightarrow> js_error + 'p"
  show "verifyQrToken hmac parse' (JSString (flip_at j i p @ CHR ''.'' # rest)) secret
          = Inr (Invalid ''Signature mismatch'')"
    using assms by (rule verify_flipped)
qed

theorem verifyQrToken_mac_before_parse_witness:
  "verifyQrToken example_mac example_parse
       (JSString (''bnVsbA=='' @ CHR ''.'' # example_signature)) ''k'' = Inr (Valid ''null'')
   \<and> flip_at 0 0 ''bnVsbA=='' = ''cnVsbA==''
   \<and> verifyQrToken example_mac example_parse
       (JSString (''cnVsbA=='' @ CHR ''.'' # example_signature)) ''k''
       = Inr (Invalid ''Signature mismatch'')"
proof -
  have h1: "verifyQrToken example_mac example_parse
       (JSString (''bnVsbA=='' @ CHR ''.'' # example_signature)) ''k'' = Inr (Valid ''null'')"
    by code_simp
  have h2: "CHR ''.'' \<notin> set ''bnVsbA==''" by simp
  have h3: "0 < length ''bnVsbA==''" by simp
  have h4: "flip_char 0 (''bnVsbA=='' ! 0) \<noteq> CHR ''.''" by code_simp
  have h5: "example_mac ''k'' ''bnVsbA=='' = Inr (replicate 31 0 @ [33])" by code_simp
  have h6: "example_mac ''k'' (flip_at 0 0 ''bnVsbA=='') = Inr (replicate 31 0 @ [34])" by code_simp
  have h7: "replicate 31 0 @ [34] \<noteq> replicate 31 0 @ [33 :: byte]" by simp
  have h8: "length (replicate 31 0 @ [34 :: byte]) = length (replicate 31 0 @ [33 :: byte])" by simp
  have f: "flip_at 0 0 ''bnVsbA=='' = ''cnVsbA==''" by code_simp
  have r: "verifyQrToken example_mac example_parse
       (JSString (flip_at 0 0 ''bnVsbA=='' @ CHR ''.'' # example_signature)) ''k''
       = Inr (Invalid ''Signature mismatch'')"
    by (rule verifyQrToken_mac_before_parse
          [where hmac = example_mac and secret = "''k''" and p = "''bnVsbA==''"
             and j = 0 and i = 0,
           OF h1 h2 h3 h4 h5 h6 h7 h8, THEN conjunct2, rule_format])
  from r have r': "verifyQrToken example_mac example_parse
       (JSString (''cnVsbA=='' @ CHR ''.'' # example_signature)) ''k''
       = Inr (Invalid ''Signature mismatch'')"
    unfolding f .
  show ?thesis by (rule conjI [OF h1 conjI [OF f r']])
qed

text \<open>
  The claim as the specification states it fails where the flipped bit makes a delimiter:
  bit 6 of the \<open>n\<close> in the payload segment \<open>bnVsbA==\<close> gives \<open>b.VsbA==\<close>, the
  string now splits into the payload \<open>b\<close> and the signature \<open>VsbA==\<close>, whose
  hexadecimal decoding is empty, and the result is the message of the exception of
  \<open>timingSafeEqual\<close>, not \<open>Signature mismatch\<close>.
\<close>

theorem verifyQrToken_tamper_counterexample:
  "verifyQrToken example_mac example_parse
       (JSString (''bnVsbA=='' @ CHR ''.'' # example_signature)) ''k'' = Inr (Valid ''null'')
   \<and> flip_at 1 6 ''bnVsbA=='' = ''b.VsbA==''
   \<and> verifyQrToken example_mac example_parse
       (JSString (flip_at 1 6 ''bnVsbA=='' @ CHR ''.'' # example_signature)) ''k''
       = Inr (Invalid ''Input buffers must have the same byte length'')
   \<and> verifyQrToken example_mac example_parse
       (JSString (flip_at 1 6 ''bnVsbA=='' @ CHR ''.'' # example_signature)) ''k''
       \<noteq> Inr (Invalid ''Signature mismatch'')"
proof -
  have a: "verifyQrToken example_mac example_parse
       (JSString (''bnVsbA=='' @ CHR ''.'' # example_signature)) ''k'' = Inr (Valid ''null'')"
    by code_simp
  have b: "flip_at 1 6 ''bnVsbA=='' = ''b.VsbA==''" by code_simp
  have c: "verifyQrToken example_mac example_parse
       (JSString (''b.VsbA=='' @ CHR ''.'' # example_signature)) ''k''
       = Inr (Invalid ''Input buffers must have the same byte length'')"
    by code_simp
  have d: "Inr (Invalid ''Input buffers must have the same byte length'')
      \<noteq> (Inr (Invalid ''Signature mismatch'') :: js_error + string verify_result)"
    by simp
  show ?thesis unfolding b c by (rule conjI [OF a conjI [OF refl conjI [OF refl d]]])
qed

text \<open>
  Claim C10: \<open>verifyQrToken\<close> returns a tagged result for every token value, secret,
  MAC and parser, whatever they return or throw; no exception leaves the function.
\<close>

theorem verifyQrToken_total:
  "(\<exists>payload. verifyQrToken hmac parse token secret = Inr (Valid payload))
   \<or> (\<exists>error. verifyQrToken hmac parse token secret = Inr (Invalid error))"
proof (cases "verifyQrToken_try hmac parse token secret")
  case (Inl err)
  then show ?thesis by (simp add: verifyQrToken_def)
next
  case (Inr r)
  then show ?thesis by (cases r) (simp_all add: verifyQrToken_def)
qed


section \<open>Properties of the meal window resolver\<close>

lemma zero_char: "CHR ''0'' = digit_char 0"
  by code_simp

lemma of_char_digit: "n < 10 \<Longrightarrow> (of_char (digit_char n) :: nat) = 48 + n"
  by (simp add: digit_char_def)

lemma pad2:
  "n < 100 \<Longrightarrow> padStart2 (string_of_nat n) = [digit_char (n div 10), digit_char (n mod 10)]"
proof (cases "n < 10")
  case True
  then show ?thesis by (simp add: padStart2_def string_of_nat.simps [of n] zero_char)
next
  case False
  assume "n < 100"
  with False have "n div 10 < 10" by simp
  with False show ?thesis
    by (simp add: padStart2_def string_of_nat.simps [of n] string_of_nat.simps [of "n div 10"])
qed

lemma two_digits:
  fixes a b :: nat
  shows "(a div 10 < b div 10 \<or> (a div 10 = b div 10 \<and> a mod 10 \<le> b mod 10)) \<longleftrightarrow> a \<le> b"
proof -
  have a: "a = 10 * (a div 10) + a mod 10" and b: "b = 10 * (b div 10) + b mod 10" by simp_all
  have "a mod 10 < 10" "b mod 10 < 10" by simp_all
  then show ?thesis using a b by linarith
qed

lemma lex_two_digits:
  fixes A B A' B' :: nat
  assumes "B < 10" "B' < 10"
  shows "(A < A' \<or> (A = A' \<and> (B < B' \<or> (B = B' \<and> P)))) \<longleftrightarrow>
         (10 * A + B < 10 * A' + B' \<or> (10 * A + B = 10 * A' + B' \<and> P))"
  using assms by (cases P) auto

lemma str_le_digits:
  assumes "a < 10" "b < 10" "c < 10" "d < 10" "a' < 10" "b' < 10" "c' < 10" "d' < 10"
  shows "str_le ([digit_char a, digit_char b] @ '':'' @ [digit_char c, digit_char d])
                ([digit_char a', digit_char b'] @ '':'' @ [digit_char c', digit_char d'])
     \<longleftrightarrow> (a < a' \<or> (a = a' \<and> (b < b' \<or> (b = b' \<and> (c < c' \<or> (c = c' \<and> d \<le> d'))))))"
  using assms by (auto simp: of_char_digit)

text \<open>On \<open>HH:MM\<close> strings the string comparison is the order of the times of day.\<close>

lemma str_le_hhmm:
  assumes "valid_clock c" "valid_clock c'"
  shows "str_le (hhmm c) (hhmm c') \<longleftrightarrow> minute_of_day c \<le> minute_of_day c'"
proof -
  obtain h m where c: "c = (h, m)" by (cases c)
  obtain h' m' where c': "c' = (h', m')" by (cases c')
  from assms have b: "h < 24" "m < 60" "h' < 24" "m' < 60" by (simp_all add: valid_clock_def c c')
  then have b100: "h < 100" "m < 100" "h' < 100" "m' < 100" by simp_all
  have d: "h div 10 < 10" "h mod 10 < 10" "m div 10 < 10" "m mod 10 < 10"
          "h' div 10 < 10" "h' mod 10 < 10" "m' div 10 < 10" "m' mod 10 < 10"
    using b by simp_all
  have "str_le (hhmm c) (hhmm c') \<longleftrightarrow>
        (h div 10 < h' div 10 \<or> (h div 10 = h' div 10 \<and> (h mod 10 < h' mod 10 \<or> (h mod 10 = h' mod 10 \<and>
          (m div 10 < m' div 10 \<or> (m div 10 = m' div 10 \<and> m mod 10 \<le> m' mod 10))))))"
    unfolding hhmm_def currentTime_def c c' fst_conv snd_conv pad2 [OF b100(1)] pad2 [OF b100(2)]
      pad2 [OF b100(3)] pad2 [OF b100(4)]
    by (rule str_le_digits [OF d])
  also have "\<dots> \<longleftrightarrow> (h div 10 < h' div 10 \<or> (h div 10 = h' div 10 \<and> (h mod 10 < h' mod 10 \<or> (h mod 10 = h' mod 10 \<and>
          m \<le> m'))))"
    by (simp only: two_digits)
  also have "\<dots> \<longleftrightarrow> (h < h' \<or> (h = h' \<and> m \<le> m'))"
  proof -
    have e: "10 * (h div 10) + h mod 10 = h" "10 * (h' div 10) + h' mod 10 = h'" by simp_all
    show ?thesis using lex_two_digits [OF d(2) d(6), of "h div 10" "h' div 10" "m \<le> m'"]
      unfolding e .
  qed
  also have "\<dots> \<longleftrightarrow> 60 * h + m \<le> 60 * h' + m'"
    using b by linarith
  finally show ?thesis by (simp add: minute_of_day_def c c')
qed

lemma hhmm_not_falsy: "\<not> falsy (Some (hhmm c))"
  by (simp add: falsy_def hhmm_def currentTime_def)

lemma in_configured_window:
  assumes "valid_clock (fst w)" "valid_clock (snd w)" "valid_clock c"
  shows "in_configured (hhmm c) (Some (window w)) \<longleftrightarrow> contains w c"
  using assms
  by (simp add: in_configured_def isTimeInWindow_def js_or_def opt_field_def window_def
      hhmm_not_falsy str_le_hhmm contains_def)

lemma determineMealType_configured:
  assumes "valid_clock (fst b)" "valid_clock (snd b)" "valid_clock (fst l)" "valid_clock (snd l)"
    and "valid_clock (fst d)" "valid_clock (snd d)" "valid_clock c"
  shows "determineMealType (configured b l d) (fst c) (snd c) = resolve_spec b l d c"
proof -
  have t: "currentTime (fst c) (snd c) = hhmm c" by (simp add: hhmm_def)
  show ?thesis
    unfolding determineMealType_def Let_def t resolve_spec_def
    by (simp add: configured_def window_of_def in_configured_window assms)
qed

lemma determineMealType_lunch_only:
  "determineMealType lunch_only 12 0 = Some Lunch" "determineMealType lunch_only 15 0 = Some Lunch"
  "determineMealType lunch_only 11 59 = None" "determineMealType lunch_only 15 1 = None"
  by code_simp+

lemma determineMealType_hour_ranges:
  assumes "valid_clock c"
  shows "determineMealType_hour (fst c) =
     (if 6 * 60 \<le> minute_of_day c \<and> minute_of_day c < 11 * 60 then Some Breakfast
      else if 11 * 60 \<le> minute_of_day c \<and> minute_of_day c < 16 * 60 then Some Lunch
      else if 16 * 60 \<le> minute_of_day c \<and> minute_of_day c < 22 * 60 then Some Dinner
      else None)"
  using assms by (auto simp: determineMealType_hour_def minute_of_day_def valid_clock_def)

text \<open>
  Claim C8, as the code has it. The resolver that reads the configuration
  (\<open>determineMealType(config)\<close>) checks breakfast, lunch and dinner in this order and
  returns the first whose configured \<open>HH:MM\<close> window contains the time of day, both
  boundaries included, and none when no window does; with the lunch window 12:00 to 15:00
  alone it returns lunch at 12:00 and 15:00 and none at 11:59 and 15:01. The resolver of
  utils/determineMealType.js reads no configuration: it returns breakfast from 06:00,
  lunch from 11:00 and dinner from 16:00 to 21:59, each range ending before the next full
  hour.
\<close>

theorem determineMealType_first_window:
  assumes "valid_clock (fst b)" "valid_clock (snd b)" "valid_clock (fst l)" "valid_clock (snd l)"
    and "valid_clock (fst d)" "valid_clock (snd d)" "valid_clock c"
  shows "determineMealType (configured b l d) (fst c) (snd c) = resolve_spec b l d c
       \<and> determineMealType lunch_only 12 0 = Some Lunch
       \<and> determineMealType lunch_only 15 0 = Some Lunch
       \<and> determineMealType lunch_only 11 59 = None
       \<and> determineMealType lunch_only 15 1 = None
       \<and> determineMealType_hour (fst c) =
           (if 6 * 60 \<le> minute_of_day c \<and> minute_of_day c < 11 * 60 then Some Breakfast
            else if 11 * 60 \<le> minute_of_day c \<and> minute_of_day c < 16 * 60 then Some Lunch
            else if 16 * 60 \<le> minute_of_day c \<and> minute_of_day c < 22 * 60 then Some Dinner
            else None)"
  using determineMealType_configured [OF assms] determineMealType_lunch_only
    determineMealType_hour_ranges [OF assms(7)]
  by (intro conjI)

theorem determineMealType_first_window_witness:
  "determineMealType (configured ((6, 30), (10, 0)) ((12, 0), (15, 0)) ((19, 0), (22, 0))) 15 0
     = Some Lunch
   \<and> resolve_spec ((6, 30), (10, 0)) ((12, 0), (15, 0)) ((19, 0), (22, 0)) (15, 0) = Some Lunch
   \<and> determineMealType_hour 15 = Some Lunch"
proof -
  have v: "valid_clock (6, 30)" "valid_clock (10, 0)" "valid_clock (12, 0)" "valid_clock (15, 0)"
    "valid_clock (19, 0)" "valid_clock (22, 0)"
    by (simp_all add: valid_clock_def)
  have r: "resolve_spec ((6, 30), (10, 0)) ((12, 0), (15, 0)) ((19, 0), (22, 0)) (15, 0) = Some Lunch"
    by (simp add: resolve_spec_def contains_def minute_of_day_def)
  have h: "determineMealType_hour 15 = Some Lunch"
    by (simp add: determineMealType_hour_def)
  have "determineMealType (configured ((6, 30), (10, 0)) ((12, 0), (15, 0)) ((19, 0), (22, 0)))
          (fst (15, 0)) (snd (15, 0))
        = resolve_spec ((6, 30), (10, 0)) ((12, 0), (15, 0)) ((19, 0), (22, 0)) (15, 0)"
    using determineMealType_first_window
      [where b = "((6, 30), (10, 0))" and l = "((12, 0), (15, 0))" and d = "((19, 0), (22, 0))"
         and c = "(15, 0)"] v
    by simp
  with r h show ?thesis by simp
qed

text \<open>
  The claim as stated fails on the resolver of utils/determineMealType.js: at 11:59 and at
  15:01 it answers lunch, where the resolver with the lunch window 12:00 to 15:00 answers
  none, and at the hour 16 that ends its lunch range it answers dinner.
\<close>

theorem determineMealType_hour_counterexample:
  "determineMealType_hour 11 = Some Lunch \<and> determineMealType lunch_only 11 59 = None
   \<and> determineMealType_hour 15 = Some Lunch \<and> determineMealType lunch_only 15 1 = None
   \<and> determineMealType_hour 16 = Some Dinner"
proof -
  have a: "determineMealType_hour 11 = Some Lunch" "determineMealType_hour 15 = Some Lunch"
    "determineMealType_hour 16 = Some Dinner"
    by (simp_all add: determineMealType_hour_def)
  show ?thesis
    using a determineMealType_lunch_only(3,4) by (intro conjI)
qed


section \<open>Properties of the settings cache\<close>

lemma getSettings_fresh:
  "cache st = Some c \<Longrightarrow> now - loadedAt st < TTL \<Longrightarrow> getSettings st now now' lookup = (c, st)"
  by (simp add: getSettings_def)

lemma getSettings_failure:
  "fst (getSettings st now now' (Inl err)) = (case cache st of Some c \<Rightarrow> c | None \<Rightarrow> getDefaultSettings)"
  by (cases "cache st") (simp_all add: getSettings_def)

lemma getSettings_failure_state: "snd (getSettings st now now' (Inl err)) = st"
  by (simp add: getSettings_def)

text \<open>
  Claim C9: when the lookup throws, \<open>getSettings\<close> returns the cached settings if there
  are any and the hardcoded defaults otherwise (among them the lunch window 12:00 to 15:00
  and the 30-second double-scan window), and the module state stays as it was; cached
  settings younger than the TTL are returned whatever the lookup would give, so without it.
\<close>

theorem getSettings_fallback:
  "fst (getSettings st now now' (Inl err)) = (case cache st of Some c \<Rightarrow> c | None \<Rightarrow> getDefaultSettings)
   \<and> snd (getSettings st now now' (Inl err)) = st
   \<and> doubleScanWindowSeconds getDefaultSettings = Some 30
   \<and> determineMealType getDefaultSettings 12 0 = Some Lunch
   \<and> (cache st = Some c \<and> now - loadedAt st < TTL \<longrightarrow>
        (\<forall>lookup. getSettings st now now' lookup = (c, st)))"
proof -
  have d: "doubleScanWindowSeconds getDefaultSettings = Some 30"
    by (simp add: getDefaultSettings_def)
  have l: "determineMealType getDefaultSettings 12 0 = Some Lunch"
    by code_simp
  show ?thesis
    using getSettings_failure getSettings_failure_state d l getSettings_fresh
    by (intro conjI impI allI) auto
qed

theorem getSettings_fallback_witness:
  "cache \<lparr>cache = Some lunch_only, loadedAt = 1000\<rparr> = Some lunch_only
   \<and> (2000 :: int) - loadedAt \<lparr>cache = Some lunch_only, loadedAt = 1000\<rparr> < TTL
   \<and> getSettings \<lparr>cache = Some lunch_only, loadedAt = 1000\<rparr> 2000 2001 (Inl (JSError ''down''))
        = (lunch_only, \<lparr>cache = Some lunch_only, loadedAt = 1000\<rparr>)"
proof -
  have a: "cache \<lparr>cache = Some lunch_only, loadedAt = 1000\<rparr> = Some lunch_only" by simp
  have b: "(2000 :: int) - loadedAt \<lparr>cache = Some lunch_only, loadedAt = 1000\<rparr> < TTL"
    by (simp add: TTL_def)
  note t = getSettings_fallback
    [where st = "\<lparr>cache = Some lunch_only, loadedAt = 1000\<rparr>" and c = lunch_only
       and now = 2000 and now' = 2001,
     THEN conjunct2, THEN conjunct2, THEN conjunct2, THEN conjunct2, THEN mp,
     OF conjI [OF a b], THEN spec]
  have c: "getSettings \<lparr>cache = Some lunch_only, loadedAt = 1000\<rparr> 2000 2001 (Inl (JSError ''down''))
        = (lunch_only, \<lparr>cache = Some lunch_only, loadedAt = 1000\<rparr>)"
    by (rule t)
  show ?thesis by (rule conjI [OF a conjI [OF b c]])
qed


section \<open>The conditional decrement and the deduction of services/scanCore.js\<close>

lemma update_first_None: "fst (update_first P f xs) = None \<Longrightarrow> snd (update_first P f xs) = xs"
  by (induction xs) (auto split: prod.splits if_splits)

lemma update_first_Some:
  "fst (update_first P f xs) = Some y \<Longrightarrow> \<exists>x \<in> set xs. P x \<and> y = f x"
  by (induction xs) (auto split: prod.splits if_splits)

lemma update_first_all:
  assumes "list_all Q xs" and "\<And>x. Q x \<Longrightarrow> P x \<Longrightarrow> Q (f x)"
  shows "list_all Q (snd (update_first P f xs))"
  using assms by (induction xs) (auto split: prod.splits)

lemma update_first_length: "length (snd (update_first P f xs)) = length xs"
  by (induction xs) (auto split: prod.splits)

text \<open>
  \<open>deductMeal()\<close> without a meal type is one conditional update: it needs a balance
  above zero in the stored document, takes exactly one meal from it, and changes nothing
  when it fails.
\<close>

lemma deductMeal_legacy_success:
  assumes "fst (deductMeal this None now subs) = Some s'"
  shows "\<exists>s \<in> set subs. s_id s = s_id this \<and> s_active s \<and> 0 < s_mealsRemaining s
           \<and> s_mealsRemaining s' = s_mealsRemaining s - 1"
proof -
  from assms obtain s where "s \<in> set subs"
    "s_id s = s_id this \<and> s_mealsRemaining s > 0 \<and> s_active s"
    "s' = s\<lparr>s_mealsRemaining := s_mealsRemaining s - 1, s_updatedAt := now\<rparr>"
    by (auto simp: deductMeal_def dest!: update_first_Some)
  then show ?thesis by auto
qed

lemma deductMeal_failure: "fst (deductMeal this mealType now subs) = None \<Longrightarrow> snd (deductMeal this mealType now subs) = subs"
  by (cases mealType) (simp_all add: deductMeal_def update_first_None)

text \<open>
  No record that \<open>processScan\<close> of services/scanCore.js hands to the store passes the
  validators, since none has a \<open>messId\<close>: the second part of the function writes the
  balance and is then rejected.
\<close>

lemma scanCore_ids_invalid: "\<not> valid_transaction (scanCore_ids req qrCodeId) t"
  by (simp add: valid_transaction_def scanCore_ids_def)

lemma scanCore_commit_rejected:
  "scanCore_commit now req snap db
     = (Inl ValidationError,
        save_subscription (s_id (sn_subscription snap))
          (\<lambda>s. s\<lparr>s_mealsRemaining := max 0 (s_mealsRemaining (sn_subscription snap) - 1),
                  s_updatedAt := now\<rparr>) db)"
  by (simp add: scanCore_commit_def Let_def create_meal_transaction_def scanCore_ids_invalid)

text \<open>
  Claim C1 on services/scanCore.js. The deduction there is not a conditional update: the
  balance is read in the first part of \<open>processScan\<close> and \<open>max 0 (balance - 1)\<close> of
  the value read is written back later with \<open>save()\<close>. With one meal left and two
  requests whose first parts run before either write, both requests pass the test of the
  balance and both write 0; neither is refused for want of a meal (both calls are rejected
  by the validators after their write, and no transaction is recorded). A call that read a
  balance of 3 and writes after two other calls have brought the stored balance to 1
  raises it to 2.
\<close>

theorem scanCore_lost_update:
  "fst interleaved_scans = [Inl ValidationError, Inl ValidationError]
   \<and> map s_mealsRemaining (subscriptions one_meal_db) = [1]
   \<and> map s_mealsRemaining (subscriptions (snd interleaved_scans)) = [0]
   \<and> transactions (snd interleaved_scans) = []
   \<and> stale_write = [[3], [2], [1], [2]]"
proof -
  have a: "fst interleaved_scans = [Inl ValidationError, Inl ValidationError]"
    by code_simp
  have b: "map s_mealsRemaining (subscriptions one_meal_db) = [1]"
    by code_simp
  have c: "map s_mealsRemaining (subscriptions (snd interleaved_scans)) = [0]"
    by code_simp
  have d: "transactions (snd interleaved_scans) = []"
    by code_simp
  have e: "stale_write = [[3], [2], [1], [2]]"
    by code_simp
  show ?thesis
    by (rule conjI [OF a conjI [OF b conjI [OF c conjI [OF d e]]]])
qed

section \<open>Properties of the idempotent scan service\<close>

lemma find_latest_None: "find_latest key P xs = None \<longleftrightarrow> (\<forall>x \<in> set xs. \<not> P x)"
  by (induction xs) (auto split: option.splits)

lemma find_latest_Some: "find_latest key P xs = Some y \<Longrightarrow> y \<in> set xs \<and> P y"
  by (induction xs arbitrary: y) (auto split: option.splits if_splits)

lemma find_latest_new:
  "\<forall>x \<in> set xs. \<not> P x \<Longrightarrow> P y \<Longrightarrow> find_latest key P (xs @ [y]) = Some y"
  by (induction xs) auto

lemma save_subscription_transactions [simp]:
  "transactions (save_subscription i f db) = transactions db"
  by (simp add: save_subscription_def)

lemma create_transaction_transactions:
  "create_transaction t db = (t', db') \<Longrightarrow>
     transactions db' = transactions db @ [t'] \<and> subscriptions db' = subscriptions db
     \<and> t' = t\<lparr>t_id := length (transactions db)\<rparr>"
  by (auto simp: create_transaction_def Let_def)

text \<open>What a fresh redemption leaves behind.\<close>

lemma processed_deduct:
  assumes "processScanIdempotent_deduct now cid mt sub w db = (Inr (Processed tx sub'), db1)"
  shows "transactions db1 = transactions db @ [tx] \<and> t_customerId tx = cid
       \<and> t_mealType tx = Some mt \<and> t_status tx = Success \<and> t_timestamp tx = now"
proof -
  obtain r subs where d: "deductMealAtomic (s_id sub) (s_mealsRemaining sub) now (subscriptions db) = (r, subs)"
    by (cases "deductMealAtomic (s_id sub) (s_mealsRemaining sub) now (subscriptions db)")
  show ?thesis
  proof (cases r)
    case None
    with assms d show ?thesis
      by (simp add: processScanIdempotent_deduct_def split: option.splits)
  next
    case (Some u)
    with assms d show ?thesis
      by (auto simp: processScanIdempotent_deduct_def create_transaction_def Let_def
          blank_transaction_def split: if_splits)
  qed
qed

lemma processed_shape:
  assumes "processScanIdempotent now cid mt sub db = (Inr (Processed tx sub'), db1)"
  shows "\<exists>w. getMealWindowBoundaries now mt = Inr w
       \<and> findExistingScan cid mt (fst w) (snd w) (transactions db) = None
       \<and> transactions db1 = transactions db @ [tx] \<and> t_customerId tx = cid
       \<and> t_mealType tx = Some mt \<and> t_status tx = Success \<and> t_timestamp tx = now"
proof (cases "getMealWindowBoundaries now mt")
  case (Inl e)
  with assms show ?thesis by (simp add: processScanIdempotent_def)
next
  case (Inr w)
  show ?thesis
  proof (cases "findExistingScan cid mt (fst w) (snd w) (transactions db)")
    case None
    with assms Inr have "processScanIdempotent_deduct now cid mt sub w db = (Inr (Processed tx sub'), db1)"
      by (simp add: processScanIdempotent_def)
    from processed_deduct [OF this] Inr None show ?thesis by simp
  next
    case (Some e)
    with assms Inr show ?thesis by (simp add: processScanIdempotent_def)
  qed
qed

lemma replay_returns_first:
  assumes first: "processScanIdempotent now1 cid mt sub db = (Inr (Processed tx sub'), db1)"
    and same: "getMealWindowBoundaries now2 mt = getMealWindowBoundaries now1 mt"
    and inside: "getMealWindowBoundaries now1 mt = Inr (ws, we)" "ws \<le> now1" "now1 \<le> we"
  shows "processScanIdempotent now2 cid mt sub2 db1
           = (Inr (Idempotent tx ''Scan already processed in this meal window''), db1)"
proof -
  from processed_shape [OF first] inside(1)
  have none: "findExistingScan cid mt ws we (transactions db) = None"
    and txs: "transactions db1 = transactions db @ [tx]"
    and tx: "t_customerId tx = cid" "t_mealType tx = Some mt" "t_status tx = Success"
      "t_timestamp tx = now1"
    by auto
  have "findExistingScan cid mt ws we (transactions db1) = Some tx"
    unfolding findExistingScan_def txs
    using none tx inside(2,3)
    by (intro find_latest_new) (simp_all add: findExistingScan_def find_latest_None)
  then show ?thesis
    by (simp add: processScanIdempotent_def same inside(1))
qed

lemma recheck_returns_existing:
  assumes "fst (deductMealAtomic (s_id subscription) (s_mealsRemaining subscription) now
                  (subscriptions db)) = None"
    and "findExistingScan cid mt (fst w) (snd w) (transactions db) = Some e"
  shows "processScanIdempotent_deduct now cid mt subscription w db
           = (Inr (Idempotent e ''Concurrent scan already processed''), db)"
proof -
  obtain r subs where d: "deductMealAtomic (s_id subscription) (s_mealsRemaining subscription) now
      (subscriptions db) = (r, subs)"
    by (cases "deductMealAtomic (s_id subscription) (s_mealsRemaining subscription) now (subscriptions db)")
  with assms(1) have "r = None" by simp
  with d assms(2) show ?thesis by (simp add: processScanIdempotent_deduct_def)
qed

text \<open>
  Claim C3, as the code has it. When the first redemption was made inside the window that
  \<open>getMealWindowBoundaries\<close> gives for the meal type, and the replay is on a day with the
  same window, the replay returns the transaction of the first call and leaves the store
  as it was: no second decrement. And when the conditional update fails, the second look
  for a success record returns that record instead of the failure.
\<close>

theorem processScanIdempotent_replay:
  assumes "processScanIdempotent now1 cid mt sub db = (Inr (Processed tx sub'), db1)"
    and "getMealWindowBoundaries now2 mt = getMealWindowBoundaries now1 mt"
    and "getMealWindowBoundaries now1 mt = Inr (ws, we)" and "ws \<le> now1" and "now1 \<le> we"
  shows "(\<forall>sub2. processScanIdempotent now2 cid mt sub2 db1
                   = (Inr (Idempotent tx ''Scan already processed in this meal window''), db1))
       \<and> (\<forall>db2 w e subscription.
             fst (deductMealAtomic (s_id subscription) (s_mealsRemaining subscription) now2
                    (subscriptions db2)) = None
             \<and> findExistingScan cid mt (fst w) (snd w) (transactions db2) = Some e
             \<longrightarrow> processScanIdempotent_deduct now2 cid mt subscription w db2
                   = (Inr (Idempotent e ''Concurrent scan already processed''), db2))"
  using replay_returns_first [OF assms] recheck_returns_existing by blast

theorem processScanIdempotent_replay_witness:
  "processScanIdempotent (at_time 12 30) 1 Lunch (the_subscription five_meal_db) five_meal_db
     = (Inr (Processed lunch_tx lunch_sub), lunch_db)
   \<and> processScanIdempotent (at_time 12 31) 1 Lunch (the_subscription five_meal_db) lunch_db
     = (Inr (Idempotent lunch_tx ''Scan already processed in this meal window''), lunch_db)"
proof -
  have r: "fst (processScanIdempotent (at_time 12 30) 1 Lunch (the_subscription five_meal_db) five_meal_db)
             = Inr (Processed lunch_tx lunch_sub)"
    by code_simp
  have h1: "processScanIdempotent (at_time 12 30) 1 Lunch (the_subscription five_meal_db) five_meal_db
              = (Inr (Processed lunch_tx lunch_sub), lunch_db)"
    unfolding lunch_db_def using r by (simp add: prod_eq_iff)
  have h2: "getMealWindowBoundaries (at_time 12 31) Lunch = getMealWindowBoundaries (at_time 12 30) Lunch"
    by code_simp
  have h3: "getMealWindowBoundaries (at_time 12 30) Lunch = Inr (at_time 12 0, at_time 15 0 + 3599999)"
    by code_simp
  have h4: "at_time 12 0 \<le> at_time 12 30" by code_simp
  have h5: "at_time 12 30 \<le> at_time 15 0 + 3599999" by code_simp
  have "processScanIdempotent (at_time 12 31) 1 Lunch (the_subscription five_meal_db) lunch_db
     = (Inr (Idempotent lunch_tx ''Scan already processed in this meal window''), lunch_db)"
    by (rule processScanIdempotent_replay
          [where ?now1.0 = "at_time 12 30" and ?now2.0 = "at_time 12 31" and cid = 1 and mt = Lunch
             and db = five_meal_db and ?db1.0 = lunch_db,
           OF h1 h2 h3 h4 h5, THEN conjunct1, rule_format])
  with h1 show ?thesis by (rule conjI)
qed

text \<open>
  The claim as stated fails outside the window written in \<open>getMealWindowBoundaries\<close>:
  a lunch redeemed at 11:30 is not found by the replay at 11:31, whose window starts at
  12:00, and the replay takes a second meal and returns a second transaction.
\<close>

theorem processScanIdempotent_replay_counterexample:
  "is_processed (fst (processScanIdempotent (at_time 11 30) 1 Lunch (the_subscription five_meal_db) five_meal_db))
   \<and> is_processed (fst (processScanIdempotent (at_time 11 31) 1 Lunch (the_subscription five_meal_db) early_db))
   \<and> map s_mealsRemaining (subscriptions early_db) = [4]
   \<and> map s_mealsRemaining
        (subscriptions (snd (processScanIdempotent (at_time 11 31) 1 Lunch
                               (the_subscription five_meal_db) early_db))) = [3]
   \<and> map t_id
        (transactions (snd (processScanIdempotent (at_time 11 31) 1 Lunch
                              (the_subscription five_meal_db) early_db))) = [0, 1]"
proof -
  have a: "is_processed (fst (processScanIdempotent (at_time 11 30) 1 Lunch (the_subscription five_meal_db) five_meal_db))"
    by code_simp
  have b: "is_processed (fst (processScanIdempotent (at_time 11 31) 1 Lunch (the_subscription five_meal_db) early_db))"
    by code_simp
  have c: "map s_mealsRemaining (subscriptions early_db) = [4]"
    by code_simp
  have d: "map s_mealsRemaining
        (subscriptions (snd (processScanIdempotent (at_time 11 31) 1 Lunch
                               (the_subscription five_meal_db) early_db))) = [3]"
    by code_simp
  have e: "map t_id
        (transactions (snd (processScanIdempotent (at_time 11 31) 1 Lunch
                              (the_subscription five_meal_db) early_db))) = [0, 1]"
    by code_simp
  show ?thesis by (rule conjI [OF a conjI [OF b conjI [OF c conjI [OF d e]]]])
qed

text \<open>Updating the document with a given identifier, when identifiers are unique.\<close>

lemma update_first_by_id:
  assumes "distinct (map s_id subs)" and "\<And>s. s_id (f s) = s_id s"
    and "update_first (\<lambda>s. s_id s = i \<and> Q s) f subs = (r, ys)"
  shows "map s_id ys = map s_id subs
       \<and> (case r of
            None \<Rightarrow> ys = subs
          | Some u \<Rightarrow> s_id u = i \<and> u \<in> set ys \<and> (\<forall>s \<in> set ys. s_id s = i \<longrightarrow> s = u)
                      \<and> (\<exists>s \<in> set subs. u = f s \<and> Q s))"
  using assms(1,3)
proof (induction subs arbitrary: r ys)
  case Nil
  then show ?case by simp
next
  case (Cons x xs)
  from Cons.prems(1) have "s_id x \<notin> s_id ` set xs" by simp
  then have others: "\<forall>s \<in> set xs. s_id s \<noteq> s_id x" by (metis imageI)
  show ?case
  proof (cases "s_id x = i \<and> Q x")
    case True
    with Cons.prems have r: "r = Some (f x)" "ys = f x # xs" by auto
    with True others show ?thesis by (auto simp: assms(2))
  next
    case False
    obtain r' ys' where u: "update_first (\<lambda>s. s_id s = i \<and> Q s) f xs = (r', ys')"
      by (cases "update_first (\<lambda>s. s_id s = i \<and> Q s) f xs")
    with False Cons.prems have r: "r = r'" "ys = x # ys'" by auto
    from Cons.prems(1) have dx: "distinct (map s_id xs)" by simp
    note ih = Cons.IH [OF dx u]
    show ?thesis
    proof (cases r')
      case None
      with ih r show ?thesis by simp
    next
      case (Some u')
      with ih have iu: "s_id u' = i" and ex: "\<exists>s \<in> set xs. u' = f s \<and> Q s" by auto
      from ex obtain s where s: "s \<in> set xs" "u' = f s" by auto
      then have "s_id s = i" using iu assms(2) by simp
      with s(1) others have "s_id x \<noteq> i" by auto
      with ih r Some show ?thesis by auto
    qed
  qed
qed

lemma update_first_no_match: "\<forall>x \<in> set xs. \<not> P x \<Longrightarrow> update_first P f xs = (None, xs)"
  by (induction xs) auto

lemma deduct_exhausted:
  assumes "\<forall>s \<in> set (subscriptions db). s_id s = i \<longrightarrow> s_mealsRemaining s = 0"
    and "s_id sub2 = i"
  shows "\<not> is_processed (fst (processScanIdempotent now cid mt sub2 db))
       \<and> snd (processScanIdempotent now cid mt sub2 db) = db"
proof -
  have d: "deductMealAtomic (s_id sub2) (s_mealsRemaining sub2) now (subscriptions db)
             = (None, subscriptions db)"
    unfolding deductMealAtomic_def using assms by (intro update_first_no_match) auto
  show ?thesis
    by (auto simp: processScanIdempotent_def processScanIdempotent_deduct_def d is_processed_def
        split: sum.splits option.splits)
qed

lemma processed_zero:
  assumes dist: "distinct (map s_id (subscriptions db))"
    and first: "processScanIdempotent now cid mt sub db = (Inr (Processed tx sub'), db1)"
    and zero: "s_mealsRemaining sub' = 0"
  shows "\<forall>s \<in> set (subscriptions db1). s_id s = s_id sub \<longrightarrow> \<not> s_active s \<and> s_mealsRemaining s = 0"
proof -
  obtain w where w: "getMealWindowBoundaries now mt = Inr w"
    and none: "findExistingScan cid mt (fst w) (snd w) (transactions db) = None"
    using processed_shape [OF first] by blast
  from first w none
  have ded: "processScanIdempotent_deduct now cid mt sub w db = (Inr (Processed tx sub'), db1)"
    by (simp add: processScanIdempotent_def)
  obtain r subs where d: "deductMealAtomic (s_id sub) (s_mealsRemaining sub) now (subscriptions db) = (r, subs)"
    by (cases "deductMealAtomic (s_id sub) (s_mealsRemaining sub) now (subscriptions db)")
  show ?thesis
  proof (cases r)
    case None
    with ded d show ?thesis
      by (simp add: processScanIdempotent_deduct_def split: option.splits)
  next
    case (Some u)
    from update_first_by_id [OF dist _ d [unfolded deductMealAtomic_def]] Some
    have ids: "map s_id subs = map s_id (subscriptions db)" and iu: "s_id u = s_id sub"
      and mem: "u \<in> set subs"
      and only: "\<forall>s \<in> set subs. s_id s = s_id sub \<longrightarrow> s = u"
      by auto
    from ded d Some zero have uz: "s_mealsRemaining u = 0"
      by (auto simp: processScanIdempotent_deduct_def create_transaction_def Let_def split: if_splits)
    with ded d Some
    have db1: "subscriptions db1
        = snd (update_first (\<lambda>s. s_id s = s_id u \<and> True) (\<lambda>s. s\<lparr>s_active := False, s_updatedAt := now\<rparr>) subs)"
      by (auto simp: processScanIdempotent_deduct_def create_transaction_def Let_def
          save_subscription_def)
    obtain r2 ys where u2: "update_first (\<lambda>s. s_id s = s_id u \<and> True)
        (\<lambda>s. s\<lparr>s_active := False, s_updatedAt := now\<rparr>) subs = (r2, ys)"
      by (cases "update_first (\<lambda>s. s_id s = s_id u \<and> True) (\<lambda>s. s\<lparr>s_active := False, s_updatedAt := now\<rparr>) subs")
    have dist2: "distinct (map s_id subs)" using dist ids by simp
    note c = update_first_by_id [OF dist2 _ u2]
    have "r2 \<noteq> None"
    proof
      assume "r2 = None"
      with u2 have "fst (update_first (\<lambda>s. s_id s = s_id u \<and> True)
        (\<lambda>s. s\<lparr>s_active := False, s_updatedAt := now\<rparr>) subs) = None" by simp
      moreover have "fst (update_first (\<lambda>s. s_id s = s_id u \<and> True)
        (\<lambda>s. s\<lparr>s_active := False, s_updatedAt := now\<rparr>) subs) \<noteq> None"
        using mem by (induction subs) (auto split: prod.splits)
      ultimately show False by simp
    qed
    then obtain v where v: "r2 = Some v" by auto
    with c have vs: "\<forall>s \<in> set ys. s_id s = s_id u \<longrightarrow> s = v"
      and ve: "\<exists>s \<in> set subs. v = s\<lparr>s_active := False, s_updatedAt := now\<rparr> \<and> True"
      and vi: "s_id v = s_id u"
      by auto
    from ve obtain s0 where s0: "s0 \<in> set subs" "v = s0\<lparr>s_active := False, s_updatedAt := now\<rparr>" by auto
    with vi have "s_id s0 = s_id sub" using iu by simp
    with only s0(1) have "s0 = u" by simp
    with s0(2) uz have "\<not> s_active v \<and> s_mealsRemaining v = 0" by simp
    with vs iu db1 u2 show ?thesis by auto
  qed
qed


lemma exhausted_takes_no_meal:
  assumes "\<forall>s \<in> set (subscriptions db). s_id s = i \<longrightarrow> s_mealsRemaining s = 0"
    and "s_id sub2 = i"
  shows "takes_no_meal mt (transactions db) (fst (processScanIdempotent now cid mt sub2 db))"
proof (cases "window_hours mt")
  case None
  then show ?thesis
    by (simp add: processScanIdempotent_def getMealWindowBoundaries_def Let_def takes_no_meal_def)
next
  case (Some h)
  obtain a b where h: "h = (a, b)" by (cases h)
  define w where "w = (startOfDay now + a * 3600000,
                       startOfDay now + b * 3600000 + 59 * 60000 + 59 * 1000 + 999)"
  have g: "getMealWindowBoundaries now mt = Inr w"
    using Some h by (simp add: getMealWindowBoundaries_def Let_def w_def)
  have d: "deductMealAtomic (s_id sub2) (s_mealsRemaining sub2) now (subscriptions db)
             = (None, subscriptions db)"
    unfolding deductMealAtomic_def using assms by (intro update_first_no_match) auto
  show ?thesis
  proof (cases "findExistingScan cid mt (fst w) (snd w) (transactions db)")
    case None
    with g d Some show ?thesis
      by (simp add: processScanIdempotent_def processScanIdempotent_deduct_def takes_no_meal_def)
  next
    case (Some e)
    then have "e \<in> set (transactions db)"
      unfolding findExistingScan_def by (auto dest: find_latest_Some)
    with g Some show ?thesis
      by (simp add: processScanIdempotent_def takes_no_meal_def)
  qed
qed

text \<open>
  In the batch route the audit entries are never written, and a customer whose
  subscriptions have no meal left is refused at the lookup of the subscription, which asks
  for \<open>mealsRemaining > 0\<close>.
\<close>

lemma logAudit_unwritten [simp]: "logAudit action db = db"
  by (simp add: logAudit_def create_audit_def)

lemma processSingleScan_exhausted:
  assumes none: "\<forall>s \<in> set (subscriptions db). s_customerId s = c_id customer \<longrightarrow> s_mealsRemaining s \<le> 0"
    and tok: "bs_qrToken scan = Some token" "token \<noteq> []"
    and ver: "verifyQrToken hmac parse (JSString token) secret = Inr (Valid (Some payload))"
    and qr: "\<not> falsy (qc_qrCodeId payload)"
    and cust: "find (\<lambda>c. c_qrCodeId c = the (qc_qrCodeId payload) \<and> c_active c) (customers db)
                 = Some customer"
  shows "processSingleScan config hmac parse secret userId now scan db
           = (denied Blocked NoActiveSubscription (bs_clientId scan), db)"
proof -
  have "find_latest s_updatedAt
          (\<lambda>s. s_customerId s = c_id customer \<and> s_active s \<and> s_mealsRemaining s > 0
               \<and> s_startDate s \<le> startOfDay (time_or (bs_clientTimestamp scan) now)
               \<and> s_endDate s \<ge> startOfDay (time_or (bs_clientTimestamp scan) now))
          (subscriptions db) = None"
    using none by (force simp: find_latest_None)
  with tok ver qr cust show ?thesis
    by (simp add: processSingleScan_def Let_def falsy_def)
qed

text \<open>
  Claim C5, as the code has it. In \<open>processScanIdempotent\<close> a decrement that brings the
  balance to exactly zero marks the stored subscription inactive in the same call, and no
  later call for that subscription takes a meal or changes the store: it returns a
  transaction that is already recorded as an idempotent success, or it throws
  \<open>NO_MEALS_REMAINING\<close> (for a meal type without a window, \<open>INVALID_MEAL_TYPE\<close>). In
  the batch route a scan with a valid credential of a customer whose subscriptions have no
  meal left is answered blocked with no_active_subscription.
\<close>

theorem processScanIdempotent_exhausted:
  assumes "distinct (map s_id (subscriptions db))"
    and "processScanIdempotent now cid mt sub db = (Inr (Processed tx sub'), db1)"
    and "s_mealsRemaining sub' = 0"
  shows "(\<forall>s \<in> set (subscriptions db1). s_id s = s_id sub \<longrightarrow> \<not> s_active s \<and> s_mealsRemaining s = 0)
       \<and> (\<forall>now2 cid2 mt2 sub2. s_id sub2 = s_id sub \<longrightarrow>
             \<not> is_processed (fst (processScanIdempotent now2 cid2 mt2 sub2 db1))
             \<and> takes_no_meal mt2 (transactions db1)
                  (fst (processScanIdempotent now2 cid2 mt2 sub2 db1))
             \<and> snd (processScanIdempotent now2 cid2 mt2 sub2 db1) = db1)
       \<and> ((\<forall>s \<in> set (subscriptions bdb). s_customerId s = c_id customer \<longrightarrow> s_mealsRemaining s \<le> 0)
            \<and> bs_qrToken scan = Some token \<and> token \<noteq> []
            \<and> verifyQrToken hmac parse (JSString token) secret = Inr (Valid (Some payload))
            \<and> \<not> falsy (qc_qrCodeId payload)
            \<and> find (\<lambda>c. c_qrCodeId c = the (qc_qrCodeId payload) \<and> c_active c) (customers bdb)
                  = Some customer
            \<longrightarrow> fst (processSingleScan config hmac parse secret userId bnow scan bdb)
                  = denied Blocked NoActiveSubscription (bs_clientId scan))"
proof -
  have z: "\<forall>s \<in> set (subscriptions db1). s_id s = s_id sub \<longrightarrow> \<not> s_active s \<and> s_mealsRemaining s = 0"
    using assms by (rule processed_zero)
  then have e: "\<forall>s \<in> set (subscriptions db1). s_id s = s_id sub \<longrightarrow> s_mealsRemaining s = 0"
    by blast
  have l: "\<forall>now2 cid2 mt2 sub2. s_id sub2 = s_id sub \<longrightarrow>
             \<not> is_processed (fst (processScanIdempotent now2 cid2 mt2 sub2 db1))
             \<and> takes_no_meal mt2 (transactions db1)
                  (fst (processScanIdempotent now2 cid2 mt2 sub2 db1))
             \<and> snd (processScanIdempotent now2 cid2 mt2 sub2 db1) = db1"
    using deduct_exhausted [OF e] exhausted_takes_no_meal [OF e] by blast
  have b: "(\<forall>s \<in> set (subscriptions bdb). s_customerId s = c_id customer \<longrightarrow> s_mealsRemaining s \<le> 0)
            \<and> bs_qrToken scan = Some token \<and> token \<noteq> []
            \<and> verifyQrToken hmac parse (JSString token) secret = Inr (Valid (Some payload))
            \<and> \<not> falsy (qc_qrCodeId payload)
            \<and> find (\<lambda>c. c_qrCodeId c = the (qc_qrCodeId payload) \<and> c_active c) (customers bdb)
                  = Some customer
            \<longrightarrow> fst (processSingleScan config hmac parse secret userId bnow scan bdb)
                  = denied Blocked NoActiveSubscription (bs_clientId scan)"
    using processSingleScan_exhausted [of bdb customer scan token hmac parse secret payload config userId bnow]
    by simp
  show ?thesis by (rule conjI [OF z conjI [OF l b]])
qed

theorem processScanIdempotent_exhausted_witness:
  "processScanIdempotent (at_time 12 30) 1 Lunch (the_subscription one_meal_db) one_meal_db
     = (Inr (Processed last_meal_tx last_meal_sub), last_meal_db)
   \<and> map s_active (subscriptions last_meal_db) = [False]
   \<and> map s_mealsRemaining (subscriptions last_meal_db) = [0]
   \<and> fst (processScanIdempotent (at_time 19 30) 1 Dinner (the_subscription one_meal_db) last_meal_db)
       = Inl NO_MEALS_REMAINING
   \<and> snd (processScanIdempotent (at_time 19 30) 1 Dinner (the_subscription one_meal_db) last_meal_db)
       = last_meal_db
   \<and> takes_no_meal Snack (transactions last_meal_db)
       (fst (processScanIdempotent (at_time 23 30) 1 Snack (the_subscription one_meal_db) last_meal_db))
   \<and> fst (processScanIdempotent (at_time 23 30) 1 Snack (the_subscription one_meal_db) last_meal_db)
       = Inl INVALID_MEAL_TYPE
   \<and> map s_mealsRemaining (subscriptions spent_db) = [0]
   \<and> fst (processSingleScan getDefaultSettings example_mac example_card_parse ''k'' (Some 9)
             (at_time 13 35) (scan_at (at_time 13 30) ''again'') spent_db)
       = denied Blocked NoActiveSubscription (Some ''again'')"
proof -
  have r: "fst (processScanIdempotent (at_time 12 30) 1 Lunch (the_subscription one_meal_db) one_meal_db)
             = Inr (Processed last_meal_tx last_meal_sub)"
    by code_simp
  have h1: "processScanIdempotent (at_time 12 30) 1 Lunch (the_subscription one_meal_db) one_meal_db
              = (Inr (Processed last_meal_tx last_meal_sub), last_meal_db)"
    unfolding last_meal_db_def using r by (simp add: prod_eq_iff)
  have h0: "distinct (map s_id (subscriptions one_meal_db))" by code_simp
  have h2: "s_mealsRemaining last_meal_sub = 0" by code_simp
  have g1: "\<forall>s \<in> set (subscriptions spent_db). s_customerId s = c_id (hd (customers spent_db))
               \<longrightarrow> s_mealsRemaining s \<le> 0"
    by code_simp
  have g2: "bs_qrToken (scan_at (at_time 13 30) ''again'') = Some example_token" by code_simp
  have g3: "example_token \<noteq> []" by code_simp
  have g4: "verifyQrToken example_mac example_card_parse (JSString example_token) ''k''
              = Inr (Valid (Some \<lparr>qc_qrCodeId = Some ''qr-1''\<rparr>))"
    by code_simp
  have g5: "\<not> falsy (qc_qrCodeId \<lparr>qc_qrCodeId = Some ''qr-1''\<rparr>)" by code_simp
  have g6: "find (\<lambda>c. c_qrCodeId c = the (qc_qrCodeId \<lparr>qc_qrCodeId = Some ''qr-1''\<rparr>) \<and> c_active c)
              (customers spent_db) = Some (hd (customers spent_db))"
    by code_simp
  have g7: "bs_clientId (scan_at (at_time 13 30) ''again'') = Some ''again''" by code_simp
  note t = processScanIdempotent_exhausted
      [where db = one_meal_db and now = "at_time 12 30" and cid = 1 and mt = Lunch
         and sub = "the_subscription one_meal_db" and ?db1.0 = last_meal_db
         and bdb = spent_db and customer = "hd (customers spent_db)"
         and scan = "scan_at (at_time 13 30) ''again''" and token = example_token
         and hmac = example_mac and parse = example_card_parse and secret = "''k''"
         and payload = "\<lparr>qc_qrCodeId = Some ''qr-1''\<rparr>" and config = getDefaultSettings
         and userId = "Some 9" and bnow = "at_time 13 35", OF h0 h1 h2]
  have a: "map s_active (subscriptions last_meal_db) = [False]" by code_simp
  have b: "map s_mealsRemaining (subscriptions last_meal_db) = [0]" by code_simp
  have c: "fst (processScanIdempotent (at_time 19 30) 1 Dinner (the_subscription one_meal_db) last_meal_db)
       = Inl NO_MEALS_REMAINING"
    by code_simp
  have d: "snd (processScanIdempotent (at_time 19 30) 1 Dinner (the_subscription one_meal_db) last_meal_db)
       = last_meal_db"
    using t [THEN conjunct2, THEN conjunct1, rule_format, of "the_subscription one_meal_db" "at_time 19 30" 1 Dinner]
    by simp
  have s1: "takes_no_meal Snack (transactions last_meal_db)
       (fst (processScanIdempotent (at_time 23 30) 1 Snack (the_subscription one_meal_db) last_meal_db))"
    using t [THEN conjunct2, THEN conjunct1, rule_format, of "the_subscription one_meal_db" "at_time 23 30" 1 Snack]
    by simp
  have s2: "fst (processScanIdempotent (at_time 23 30) 1 Snack (the_subscription one_meal_db) last_meal_db)
       = Inl INVALID_MEAL_TYPE"
    by code_simp
  have e: "map s_mealsRemaining (subscriptions spent_db) = [0]" by code_simp
  have f: "fst (processSingleScan getDefaultSettings example_mac example_card_parse ''k'' (Some 9)
             (at_time 13 35) (scan_at (at_time 13 30) ''again'') spent_db)
       = denied Blocked NoActiveSubscription (Some ''again'')"
    using t [THEN conjunct2, THEN conjunct2, THEN mp,
             OF conjI [OF g1 conjI [OF g2 conjI [OF g3 conjI [OF g4 conjI [OF g5 g6]]]]]]
    unfolding g7 .
  show ?thesis
    by (rule conjI [OF h1 conjI [OF a conjI [OF b conjI [OF c conjI [OF d
          conjI [OF s1 conjI [OF s2 conjI [OF e f]]]]]]]])
qed

text \<open>
  The claim as stated fails on the replay: after the redemption of the last meal at 12:30,
  the same request at 12:31 is not denied; it returns the success result with the recorded
  transaction.
\<close>

theorem processScanIdempotent_exhausted_counterexample:
  "is_processed (fst (processScanIdempotent (at_time 12 30) 1 Lunch (the_subscription one_meal_db) one_meal_db))
   \<and> map s_mealsRemaining (subscriptions last_meal_db) = [0]
   \<and> processScanIdempotent (at_time 12 31) 1 Lunch (the_subscription one_meal_db) last_meal_db
       = (Inr (Idempotent last_meal_tx ''Scan already processed in this meal window''), last_meal_db)"
proof -
  have a: "is_processed (fst (processScanIdempotent (at_time 12 30) 1 Lunch (the_subscription one_meal_db) one_meal_db))"
    by code_simp
  have b: "map s_mealsRemaining (subscriptions last_meal_db) = [0]" by code_simp
  have c: "fst (processScanIdempotent (at_time 12 31) 1 Lunch (the_subscription one_meal_db) last_meal_db)
       = Inr (Idempotent last_meal_tx ''Scan already processed in this meal window'')"
    by code_simp
  have d: "snd (processScanIdempotent (at_time 12 31) 1 Lunch (the_subscription one_meal_db) last_meal_db)
       = last_meal_db"
    by code_simp
  have "processScanIdempotent (at_time 12 31) 1 Lunch (the_subscription one_meal_db) last_meal_db
       = (Inr (Idempotent last_meal_tx ''Scan already processed in this meal window''), last_meal_db)"
    using c d by (simp add: prod_eq_iff)
  with a b show ?thesis by (intro conjI)
qed

section \<open>Properties of \<open>MealScanner.processScan\<close>\<close>

lemma find_SomeD: "find P xs = Some x \<Longrightarrow> P x"
  by (induction xs) (auto split: if_splits)

lemma decided_refuse [simp]: "decided (refuse c s reason dup) = Some reason"
  by (simp add: decided_def refuse_def)

lemma decided_Inr [simp]: "decided (Inr ready) = None"
  by (simp add: decided_def)

text \<open>
  The decision of the checks is the first failing test. A subscription that the lookup
  returns has a meal left, so the test \<open>mealsRemaining <= 0\<close> after it never fails.
\<close>

lemma processScan_decide_order:
  "decided (processScan_decide cfg verifyToken now qrToken metadata db)
     = first_failing (denial_checks cfg verifyToken now qrToken metadata db)"
proof (cases "verifyToken qrToken")
  case (Inl err)
  then show ?thesis
    by (simp add: processScan_decide_def first_failing_def denial_checks_def Let_def)
next
  case (Inr p)
  show ?thesis
  proof (cases "scan_customer verifyToken qrToken db")
    case None
    with Inr show ?thesis
      by (simp add: processScan_decide_def first_failing_def denial_checks_def
          Let_def scan_customer_def)
  next
    case cust: (Some c)
    show ?thesis
    proof (cases "scan_mealType cfg now metadata")
      case None
      with Inr cust show ?thesis
        by (simp add: processScan_decide_def first_failing_def denial_checks_def
            Let_def scan_customer_def scan_mealType_def)
    next
      case mt: (Some m)
      show ?thesis
      proof (cases "checkDuplicateScan cfg now (c_id c) m (transactions db)")
        case (Some d)
        with Inr cust mt show ?thesis
          by (simp add: processScan_decide_def first_failing_def denial_checks_def
              Let_def scan_customer_def scan_mealType_def)
      next
        case nodup: None
        show ?thesis
        proof (cases "scanned_today now (c_id c) m (transactions db) \<and> \<not> md_adminOverride metadata")
          case True
          with Inr cust mt nodup show ?thesis
            by (simp add: processScan_decide_def first_failing_def denial_checks_def
                Let_def scan_customer_def scan_mealType_def scanned_today_def)
        next
          case False
          show ?thesis
          proof (cases "scan_subscription now (Some c) db")
            case None
            with Inr cust mt nodup False show ?thesis
              by (auto simp: processScan_decide_def first_failing_def denial_checks_def
                  Let_def scan_customer_def scan_mealType_def scanned_today_def
                  scan_subscription_def)
          next
            case (Some s)
            then have "0 < s_mealsRemaining s"
              by (auto simp: scan_subscription_def dest: find_SomeD)
            with Some Inr cust mt nodup False show ?thesis
              by (auto simp: processScan_decide_def first_failing_def denial_checks_def
                  Let_def scan_customer_def scan_mealType_def scanned_today_def
                  scan_subscription_def)
          qed
        qed
      qed
    qed
  qed
qed

text \<open>What \<open>createFailedTransaction\<close> returns and what it leaves alone.\<close>

lemma createFailedTransaction_returned:
  assumes "fst (createFailedTransaction cfg now c s u reason md dup db) = Inr r"
  shows "sr_failureReason r = Some reason \<and> \<not> sr_success r"
  using assms
  by (auto simp: createFailedTransaction_def Let_def split: if_splits sum.splits prod.splits)

lemma createFailedTransaction_subscriptions:
  "subscriptions (snd (createFailedTransaction cfg now c s u reason md dup db)) = subscriptions db"
  by (auto simp: createFailedTransaction_def Let_def create_meal_transaction_def
      create_transaction_def create_audit_def split: if_splits sum.splits prod.splits)

lemma processScan_check_refused:
  assumes "fst (processScan_check cfg verifyToken now qrToken u metadata db) = Inr (Inl r)"
  shows "sr_failureReason r = decided (processScan_decide cfg verifyToken now qrToken metadata db)
       \<and> sr_failureReason r \<noteq> None \<and> \<not> sr_success r"
proof (cases "processScan_decide cfg verifyToken now qrToken metadata db")
  case (Inl call)
  obtain res d where p: "createFailedTransaction cfg now (fc_customerId call) (fc_subscriptionId call)
      u (fc_failureReason call) metadata (fc_duplicateOfTransaction call) db = (res, d)"
    by (cases "createFailedTransaction cfg now (fc_customerId call) (fc_subscriptionId call)
      u (fc_failureReason call) metadata (fc_duplicateOfTransaction call) db")
  with assms Inl have "res = Inr r"
    by (cases res) (simp_all add: processScan_check_def)
  with p have "fst (createFailedTransaction cfg now (fc_customerId call) (fc_subscriptionId call)
      u (fc_failureReason call) metadata (fc_duplicateOfTransaction call) db) = Inr r"
    by simp
  from createFailedTransaction_returned [OF this] Inl show ?thesis
    by (simp add: decided_def)
next
  case (Inr ready)
  with assms show ?thesis by (simp add: processScan_check_def)
qed

lemma processScan_check_ready:
  "(\<exists>ready. fst (processScan_check cfg verifyToken now qrToken u metadata db) = Inr (Inr ready))
     \<longleftrightarrow> decided (processScan_decide cfg verifyToken now qrToken metadata db) = None"
proof (cases "processScan_decide cfg verifyToken now qrToken metadata db")
  case (Inl call)
  obtain res d where p: "createFailedTransaction cfg now (fc_customerId call) (fc_subscriptionId call)
      u (fc_failureReason call) metadata (fc_duplicateOfTransaction call) db = (res, d)"
    by (cases "createFailedTransaction cfg now (fc_customerId call) (fc_subscriptionId call)
      u (fc_failureReason call) metadata (fc_duplicateOfTransaction call) db")
  with Inl show ?thesis
    by (cases res) (simp_all add: processScan_check_def decided_def)
next
  case (Inr ready)
  then show ?thesis by (simp add: processScan_check_def)
qed

lemma processScan_check_subscriptions:
  "subscriptions (snd (processScan_check cfg verifyToken now qrToken u metadata db)) = subscriptions db"
proof (cases "processScan_decide cfg verifyToken now qrToken metadata db")
  case (Inl call)
  obtain res d where p: "createFailedTransaction cfg now (fc_customerId call) (fc_subscriptionId call)
      u (fc_failureReason call) metadata (fc_duplicateOfTransaction call) db = (res, d)"
    by (cases "createFailedTransaction cfg now (fc_customerId call) (fc_subscriptionId call)
      u (fc_failureReason call) metadata (fc_duplicateOfTransaction call) db")
  have "subscriptions d = subscriptions db"
    using createFailedTransaction_subscriptions [of cfg now "fc_customerId call"
        "fc_subscriptionId call" u "fc_failureReason call" metadata
        "fc_duplicateOfTransaction call" db] p by simp
  with Inl p show ?thesis
    by (cases res) (simp_all add: processScan_check_def)
next
  case (Inr ready)
  then show ?thesis by (simp add: processScan_check_def)
qed

text \<open>The order of the throws of \<open>ScanService.processScan\<close>, and the rollback.\<close>

lemma scanService_order:
  "thrown (fst (scanService_processScan verifyToken now qrToken u metadata db))
     = first_error (service_checks verifyToken now qrToken u metadata db)"
  by (auto simp: scanService_processScan_def thrown_def first_error_def service_checks_def
      service_customer_def service_subscription_def service_update_def Let_def
      create_meal_transaction_def
      split: sum.splits option.splits prod.splits)

lemma scanService_rollback:
  "thrown (fst (scanService_processScan verifyToken now qrToken u metadata db)) \<noteq> None
     \<Longrightarrow> snd (scanService_processScan verifyToken now qrToken u metadata db) = db"
  by (auto simp: scanService_processScan_def thrown_def Let_def
      split: sum.splits option.splits prod.splits if_splits)

text \<open>
  Claim C4, as the code has it. The checks of \<open>MealScanner.processScan\<close> end with the
  refusal of the first failing test in the order invalid_qr, customer_not_found (missing
  or inactive), invalid_meal_window, duplicate_scan, already_scanned_today,
  no_subscription (no active, unexpired subscription with a meal left),
  subscription_paused, meal_type_not_allowed; a refusal that \<open>processScan\<close> returns
  from its checks carries that reason, and the deduction is reached exactly when no test
  fails. \<open>ScanService.processScan\<close> throws the error of the first failing check in the
  order token, WRONG_MESS, UNAUTHORIZED_ROLE, CUSTOMER_NOT_FOUND, CUSTOMER_INACTIVE,
  DUPLICATE_SCAN, NO_SUBSCRIPTION, NO_MEALS, and last the rejection of the transaction
  record by the validators; whenever it throws, the store is as it was.
\<close>

theorem processScan_first_failing_check:
  "decided (processScan_decide cfg verifyToken now qrToken metadata db)
     = first_failing (denial_checks cfg verifyToken now qrToken metadata db)
   \<and> map snd (denial_checks cfg verifyToken now qrToken metadata db)
     = [InvalidQr, CustomerNotFound, InvalidMealWindow, DuplicateScan, AlreadyScannedToday,
        NoSubscription, SubscriptionPaused, MealTypeNotAllowed]
   \<and> (\<forall>refused.
         fst (processScan_check cfg verifyToken now qrToken scannedByUserId metadata db)
           = Inr (Inl refused)
         \<longrightarrow> sr_failureReason refused
               = first_failing (denial_checks cfg verifyToken now qrToken metadata db)
             \<and> sr_failureReason refused \<noteq> None)
   \<and> ((\<exists>ready. fst (processScan_check cfg verifyToken now qrToken scannedByUserId metadata db)
                   = Inr (Inr ready))
        \<longleftrightarrow> first_failing (denial_checks cfg verifyToken now qrToken metadata db) = None)
   \<and> thrown (fst (scanService_processScan verifyToken now qrToken scannedByUserId smetadata db))
     = first_error (service_checks verifyToken now qrToken scannedByUserId smetadata db)
   \<and> map snd (tl (service_checks verifyToken now qrToken scannedByUserId smetadata db))
     = [WRONG_MESS, UNAUTHORIZED_ROLE, CUSTOMER_NOT_FOUND, CUSTOMER_INACTIVE, DUPLICATE_SCAN,
        NO_SUBSCRIPTION, NO_MEALS, VALIDATION_ERROR]
   \<and> (thrown (fst (scanService_processScan verifyToken now qrToken scannedByUserId smetadata db))
         \<noteq> None
        \<longrightarrow> snd (scanService_processScan verifyToken now qrToken scannedByUserId smetadata db) = db)"
proof -
  note o = processScan_decide_order [of cfg verifyToken now qrToken metadata db]
  have a: "map snd (denial_checks cfg verifyToken now qrToken metadata db)
     = [InvalidQr, CustomerNotFound, InvalidMealWindow, DuplicateScan, AlreadyScannedToday,
        NoSubscription, SubscriptionPaused, MealTypeNotAllowed]"
    by (simp add: denial_checks_def Let_def)
  have b: "\<forall>refused.
         fst (processScan_check cfg verifyToken now qrToken scannedByUserId metadata db)
           = Inr (Inl refused)
         \<longrightarrow> sr_failureReason refused
               = first_failing (denial_checks cfg verifyToken now qrToken metadata db)
             \<and> sr_failureReason refused \<noteq> None"
  proof (intro allI impI)
    fix refused
    assume h: "fst (processScan_check cfg verifyToken now qrToken scannedByUserId metadata db)
                 = Inr (Inl refused)"
    from processScan_check_refused [OF h]
    have "sr_failureReason refused
            = decided (processScan_decide cfg verifyToken now qrToken metadata db)
          \<and> sr_failureReason refused \<noteq> None"
      by blast
    then show "sr_failureReason refused
            = first_failing (denial_checks cfg verifyToken now qrToken metadata db)
          \<and> sr_failureReason refused \<noteq> None"
      unfolding o .
  qed
  have c: "(\<exists>ready. fst (processScan_check cfg verifyToken now qrToken scannedByUserId metadata db)
                   = Inr (Inr ready))
        \<longleftrightarrow> first_failing (denial_checks cfg verifyToken now qrToken metadata db) = None"
    using processScan_check_ready [of cfg verifyToken now qrToken scannedByUserId metadata db] o
    by simp
  note d = scanService_order [of verifyToken now qrToken scannedByUserId smetadata db]
  have e: "map snd (tl (service_checks verifyToken now qrToken scannedByUserId smetadata db))
     = [WRONG_MESS, UNAUTHORIZED_ROLE, CUSTOMER_NOT_FOUND, CUSTOMER_INACTIVE, DUPLICATE_SCAN,
        NO_SUBSCRIPTION, NO_MEALS, VALIDATION_ERROR]"
    by (simp add: service_checks_def Let_def)
  have f: "thrown (fst (scanService_processScan verifyToken now qrToken scannedByUserId smetadata db))
         \<noteq> None
        \<longrightarrow> snd (scanService_processScan verifyToken now qrToken scannedByUserId smetadata db) = db"
    using scanService_rollback [of verifyToken now qrToken scannedByUserId smetadata db] by blast
  show ?thesis
    by (rule conjI [OF o conjI [OF a conjI [OF b conjI [OF c conjI [OF d conjI [OF e f]]]]]])
qed

theorem processScan_first_failing_check_witness:
  "fst (processScan_check default_scanner_settings example_verifyToken (at_time 12 30) ''token-1''
          (Some 9) example_metadata scanned_lunch_db) = Inr (Inl already_scanned_refusal)
   \<and> first_failing (denial_checks default_scanner_settings example_verifyToken (at_time 12 30)
                      ''token-1'' example_metadata scanned_lunch_db) = Some AlreadyScannedToday
   \<and> thrown (fst (scanService_processScan example_verifyToken (at_time 12 30) ''token-1'' (Some 9)
                    staff_metadata no_subscription_db)) = Some NO_SUBSCRIPTION
   \<and> snd (scanService_processScan example_verifyToken (at_time 12 30) ''token-1'' (Some 9)
            staff_metadata no_subscription_db) = no_subscription_db"
proof -
  have h: "fst (processScan_check default_scanner_settings example_verifyToken (at_time 12 30)
             ''token-1'' (Some 9) example_metadata scanned_lunch_db) = Inr (Inl already_scanned_refusal)"
    by code_simp
  have r: "sr_failureReason already_scanned_refusal = Some AlreadyScannedToday"
    by code_simp
  have g: "thrown (fst (scanService_processScan example_verifyToken (at_time 12 30) ''token-1'' (Some 9)
                    staff_metadata no_subscription_db)) = Some NO_SUBSCRIPTION"
    by code_simp
  then have g': "thrown (fst (scanService_processScan example_verifyToken (at_time 12 30) ''token-1''
                    (Some 9) staff_metadata no_subscription_db)) \<noteq> None"
    by simp
  note t = processScan_first_failing_check
      [where cfg = default_scanner_settings and verifyToken = example_verifyToken
         and now = "at_time 12 30" and qrToken = "''token-1''" and scannedByUserId = "Some 9"
         and metadata = example_metadata and db = scanned_lunch_db]
  note t' = processScan_first_failing_check
      [where cfg = default_scanner_settings and verifyToken = example_verifyToken
         and now = "at_time 12 30" and qrToken = "''token-1''" and scannedByUserId = "Some 9"
         and metadata = example_metadata and smetadata = staff_metadata
         and db = no_subscription_db]
  have a: "first_failing (denial_checks default_scanner_settings example_verifyToken (at_time 12 30)
                      ''token-1'' example_metadata scanned_lunch_db) = Some AlreadyScannedToday"
    using t [THEN conjunct2, THEN conjunct2, THEN conjunct1, rule_format, OF h] r by simp
  have b: "snd (scanService_processScan example_verifyToken (at_time 12 30) ''token-1'' (Some 9)
            staff_metadata no_subscription_db) = no_subscription_db"
    by (rule t' [THEN conjunct2, THEN conjunct2, THEN conjunct2, THEN conjunct2, THEN conjunct2,
                 THEN conjunct2, THEN mp, OF g'])
  show ?thesis by (rule conjI [OF h conjI [OF a conjI [OF g b]]])
qed

text \<open>
  The claim as stated fails on both functions. At 03:00, outside every meal window, a
  customer without any subscription is refused by \<open>MealScanner.processScan\<close> with
  invalid_meal_window, which the claim places after no_active_subscription; and
  \<open>ScanService.processScan\<close> refuses a customer without subscription who has scanned
  lunch today with DUPLICATE_SCAN, which the claim places after no_active_subscription.
\<close>

theorem processScan_order_counterexample:
  "scan_subscription (at_time 3 0)
       (scan_customer example_verifyToken ''token-1'' no_subscription_db) no_subscription_db = None
   \<and> scan_mealType default_scanner_settings (at_time 3 0) example_metadata = None
   \<and> map_sum id sr_failureReason
        (fst (processScan default_scanner_settings example_verifyToken (at_time 3 0) ''token-1''
                (Some 9) example_metadata no_subscription_db)) = Inr (Some InvalidMealWindow)
   \<and> service_subscription (at_time 12 30)
        (service_customer example_verifyToken ''token-1'' scanned_lunch_db) scanned_lunch_db = None
   \<and> fst (scanService_processScan example_verifyToken (at_time 12 30) ''token-1'' (Some 9)
            staff_metadata scanned_lunch_db) = Inl DUPLICATE_SCAN"
proof -
  have a: "scan_subscription (at_time 3 0)
       (scan_customer example_verifyToken ''token-1'' no_subscription_db) no_subscription_db = None"
    by code_simp
  have b: "scan_mealType default_scanner_settings (at_time 3 0) example_metadata = None"
    by code_simp
  have c: "map_sum id sr_failureReason
        (fst (processScan default_scanner_settings example_verifyToken (at_time 3 0) ''token-1''
                (Some 9) example_metadata no_subscription_db)) = Inr (Some InvalidMealWindow)"
    by code_simp
  have d: "service_subscription (at_time 12 30)
        (service_customer example_verifyToken ''token-1'' scanned_lunch_db) scanned_lunch_db = None"
    by code_simp
  have e: "fst (scanService_processScan example_verifyToken (at_time 12 30) ''token-1'' (Some 9)
            staff_metadata scanned_lunch_db) = Inl DUPLICATE_SCAN"
    by code_simp
  show ?thesis by (rule conjI [OF a conjI [OF b conjI [OF c conjI [OF d e]]]])
qed

text \<open>
  Claim C6 on the refusal meal_type_not_allowed. At 19:30 a customer whose plan allows
  breakfast and lunch scans, with \<open>metadata.messId\<close> set as the scan routes set it. The
  checks end with the refusal meal_type_not_allowed, for which the code has the message
  \<open>This meal type is not included in your plan\<close>; the failed record is created with
  that reason, the schema of the transaction does not list it, and \<open>processScan\<close> is
  rejected with the \<open>ValidationError\<close> instead of returning the reason. The store, and
  with it the balance, is unchanged. Without \<open>metadata.messId\<close> no record is created and
  the reason is returned.
\<close>

theorem processScan_plan_refusal_rejected:
  "decided (processScan_decide default_scanner_settings example_verifyToken (at_time 19 30)
              ''token-1'' example_metadata breakfast_lunch_db) = Some MealTypeNotAllowed
   \<and> getErrorMessage MealTypeNotAllowed = ''This meal type is not included in your plan''
   \<and> \<not> reason_in_schema MealTypeNotAllowed
   \<and> fst (processScan default_scanner_settings example_verifyToken (at_time 19 30) ''token-1''
            (Some 9) example_metadata breakfast_lunch_db) = Inl ValidationError
   \<and> snd (processScan default_scanner_settings example_verifyToken (at_time 19 30) ''token-1''
            (Some 9) example_metadata breakfast_lunch_db) = breakfast_lunch_db
   \<and> map_sum id sr_failureReason
        (fst (processScan default_scanner_settings example_verifyToken (at_time 19 30) ''token-1''
                (Some 9) (example_metadata\<lparr>md_messId := None\<rparr>) breakfast_lunch_db))
       = Inr (Some MealTypeNotAllowed)"
proof -
  have a: "decided (processScan_decide default_scanner_settings example_verifyToken (at_time 19 30)
              ''token-1'' example_metadata breakfast_lunch_db) = Some MealTypeNotAllowed"
    by code_simp
  have b: "getErrorMessage MealTypeNotAllowed = ''This meal type is not included in your plan''"
    by code_simp
  have c: "\<not> reason_in_schema MealTypeNotAllowed"
    by code_simp
  have d: "fst (processScan default_scanner_settings example_verifyToken (at_time 19 30) ''token-1''
            (Some 9) example_metadata breakfast_lunch_db) = Inl ValidationError"
    by code_simp
  have e: "snd (processScan default_scanner_settings example_verifyToken (at_time 19 30) ''token-1''
            (Some 9) example_metadata breakfast_lunch_db) = breakfast_lunch_db"
    by code_simp
  have f: "map_sum id sr_failureReason
        (fst (processScan default_scanner_settings example_verifyToken (at_time 19 30) ''token-1''
                (Some 9) (example_metadata\<lparr>md_messId := None\<rparr>) breakfast_lunch_db))
       = Inr (Some MealTypeNotAllowed)"
    by code_simp
  show ?thesis by (rule conjI [OF a conjI [OF b conjI [OF c conjI [OF d conjI [OF e f]]]]])
qed

section \<open>Properties of batch redemption\<close>












end
